theory Spec2Isabelle
  imports Complex_Main "HOL-Library.Sublist"
begin

section \<open>Records of the data pipeline\<close>

text \<open>
  The pipeline of \<^verbatim>\<open>TFDataPipeline.py\<close> moves dictionaries from a key (a string) to an
  array, a string, an integer or a boolean. An array of rank at least one is kept as
  \<open>Arr tr xs\<close>: the list \<open>xs\<close> of its frames along axis 0 and the extents \<open>tr\<close> of the
  remaining axes. A frame stands for the sub-array of the remaining axes and lives in a
  type with a zero, the all-zero frame. A numeric array of rank 0 is \<open>Num\<close>, a boolean one
  \<open>Flag\<close>. Python integers are \<open>int\<close>. The counters kept in \<^verbatim>\<open>tf.int32\<close> variables count
  members and frames of one batch and are read as integers as well.

  The module builds TensorFlow graph operations. What \<^verbatim>\<open>tf.while_loop\<close> does with its loop
  variables when a loop is built is \<open>tf_while_loop\<close> below; the constructors that build such
  a loop are \<open>TFBatchingQueue_new\<close> and \<open>TFChunkingQueueRunner_new\<close>. The body of a loop
  is modelled by what it computes from given values; an operation that the body makes and
  that nothing it returns depends on is not run. A queue is the list of its elements,
  oldest first; an operation that waits on a queue has no result (\<open>None\<close>).
\<close>

type_synonym key = string

datatype 'a tensor = Text string | Flag bool | Num int | Arr "nat list" "'a list"

type_synonym 'a item = "key \<rightharpoonup> 'a tensor"

datatype error =
    KeyError key
  | TypeError
  | ValueError
  | IndexError
  | AssertionError
  | Exception string

text \<open>
  \<^verbatim>\<open>x.shape[axis]\<close> and \<^verbatim>\<open>tf.shape(x)[axis]\<close>: the extent of one axis; the shape of a
  scalar is the empty tuple, a string has no shape.
\<close>

definition shape_at :: "'a tensor \<Rightarrow> nat \<Rightarrow> error + int" where
  "shape_at t a =
     (case t of
        Arr tr xs \<Rightarrow>
          if a < length (length xs # tr) then Inr (int ((length xs # tr) ! a)) else Inl IndexError
      | Text s \<Rightarrow> Inl TypeError
      | _ \<Rightarrow> Inl IndexError)"

text \<open>
  \<^verbatim>\<open>tf.while_loop(cond, body, loop_vars)\<close>, a function of TensorFlow, at the time the loop
  is built. A loop variable, and a value that the body returns, is a tensor (or a Python
  value that converts to one, as \<^verbatim>\<open>False\<close> and \<^verbatim>\<open>0\<close> do) or a \<^verbatim>\<open>tf.Operation\<close>, which is
  what \<^verbatim>\<open>tf.no_op()\<close>, \<^verbatim>\<open>tf.group\<close> and the enqueue of a queue give. The loop variables are
  converted to tensors before the body is called: an operation does not convert, and
  \<^verbatim>\<open>TypeError\<close> is raised. The body has to return one value for every loop variable, or
  \<^verbatim>\<open>ValueError\<close> is raised. The result has one value for every loop variable.
\<close>

datatype loop_value = Tensor | Operation

definition tf_while_loop ::
  "loop_value list \<Rightarrow> loop_value list \<Rightarrow> error + loop_value list" where
  "tf_while_loop loop_vars body_result =
     (if Operation \<in> set loop_vars then Inl TypeError
      else if length body_result \<noteq> length loop_vars then Inl ValueError
      else Inr loop_vars)"

section \<open>TFBatchingQueue\<close>

text \<open>
  The state of a \<^verbatim>\<open>TFBatchingQueue\<close>: its two parameters, the default input key of the
  extern data and that key's \<^verbatim>\<open>time_dim_axis_excluding_batch\<close>, the two variables
  \<^verbatim>\<open>_cur_batch_num\<close> and \<^verbatim>\<open>_cur_max_seq_len\<close>, the queue \<^verbatim>\<open>_tf_batch_nums\<close> of sealed batch
  sizes, the queue \<^verbatim>\<open>_tf_out_queue\<close> of members, and the three counters updated when a
  batch is taken out.
\<close>

record 'a TFBatchingQueue =
  batch_size :: int
  max_seqs :: int
  default_key :: key
  time_axis :: "nat option"
  cur_batch_num :: int
  cur_max_seq_len :: int
  tf_batch_nums :: "int list"
  tf_out_queue :: "'a item list"
  last_seq_idx_var :: int
  seq_counter :: int
  batch_counter :: int

text \<open>
  The variables and queues as the statements of \<^verbatim>\<open>__init__\<close> make them (lines 490 to 513)
  and \<^verbatim>\<open>_init_op\<close> sets them: all variables start at 0, both queues are empty. Whether
  \<^verbatim>\<open>__init__\<close> gets through is \<open>TFBatchingQueue_new\<close> below.
\<close>

definition TFBatchingQueue_init ::
  "int \<Rightarrow> int \<Rightarrow> key \<Rightarrow> nat option \<Rightarrow> 'a TFBatchingQueue" where
  "TFBatchingQueue_init bs ms dk ta =
     \<lparr>batch_size = bs, max_seqs = ms, default_key = dk, time_axis = ta,
      cur_batch_num = 0, cur_max_seq_len = 0,
      tf_batch_nums = [], tf_out_queue = [],
      last_seq_idx_var = 0, seq_counter = 0, batch_counter = 0\<rparr>"

text \<open>
  \<^verbatim>\<open>_make_enqueue_loop_op\<close> (lines 571 to 582) hands \<^verbatim>\<open>[False, tf.no_op()]\<close> to
  \<^verbatim>\<open>tf.while_loop\<close> as loop variables; the body would return the stop flag and the
  operation of \<^verbatim>\<open>_make_enqueue_op\<close>, a \<^verbatim>\<open>tf.group\<close>.
\<close>

definition make_enqueue_loop_op :: "error + loop_value list" where
  "make_enqueue_loop_op = tf_while_loop [Tensor, Operation] [Tensor, Operation]"

text \<open>
  \<^verbatim>\<open>__init__\<close>: the data queues must be without batch axis and every data of the extern
  data must have its batch axis at 0 (\<open>batch_dim_axes\<close> lists them); then the queues and
  the two variables are made and, at line 501, the loop operation. An exception of
  \<^verbatim>\<open>_make_enqueue_loop_op\<close> leaves \<^verbatim>\<open>__init__\<close>, and no object is made.
\<close>

definition TFBatchingQueue_new ::
  "bool \<Rightarrow> nat option list \<Rightarrow> int \<Rightarrow> int \<Rightarrow> key \<Rightarrow> nat option
     \<Rightarrow> error + 'a TFBatchingQueue" where
  "TFBatchingQueue_new with_batch batch_dim_axes bs ms dk ta =
     (if with_batch then Inl AssertionError
      else if filter (\<lambda>a. a \<noteq> Some 0) batch_dim_axes \<noteq> [] then Inl AssertionError
      else case make_enqueue_loop_op of
             Inl e \<Rightarrow> Inl e
           | Inr loop_op \<Rightarrow> Inr (TFBatchingQueue_init bs ms dk ta))"

text \<open>
  The consumer side, \<^verbatim>\<open>dequeue_op\<close>: one batch size \<open>n\<close> is taken from \<^verbatim>\<open>_tf_batch_nums\<close> and
  \<^verbatim>\<open>dequeue_up_to(n)\<close> takes the \<open>n\<close> oldest members of the out queue. \<open>None\<close> means that the
  operation blocks: no batch size, or fewer than \<open>n\<close> members. The members come out stacked
  (the list) and each array padded with zero frames to the longest of the batch.
\<close>

definition seq_len_of :: "key \<Rightarrow> 'a item \<Rightarrow> nat" where
  "seq_len_of k v = (case v k of Some (Arr tr xs) \<Rightarrow> length xs | _ \<Rightarrow> 0)"

definition max_len_of :: "key \<Rightarrow> 'a item list \<Rightarrow> nat" where
  "max_len_of k vs = fold max (map (seq_len_of k) vs) 0"

definition pad_tensor :: "nat \<Rightarrow> ('a::zero) tensor \<Rightarrow> 'a tensor" where
  "pad_tensor m t =
     (case t of Arr tr xs \<Rightarrow> Arr tr (xs @ replicate (m - length xs) 0) | _ \<Rightarrow> t)"

definition pad_item :: "'a item list \<Rightarrow> ('a::zero) item \<Rightarrow> 'a item" where
  "pad_item vs v = (\<lambda>k. map_option (pad_tensor (max_len_of k vs)) (v k))"

definition dequeue_up_to :: "nat \<Rightarrow> ('a::zero) item list \<Rightarrow> 'a item list" where
  "dequeue_up_to n vs = map (pad_item (take n vs)) (take n vs)"

text \<open>\<^verbatim>\<open>tf.reduce_max\<close> over the \<^verbatim>\<open>seq_idx\<close> entries; the lowest \<^verbatim>\<open>int32\<close> for no entry.\<close>

definition reduce_max_seq_idx :: "'a item list \<Rightarrow> int" where
  "reduce_max_seq_idx vs =
     fold max (concat (map (\<lambda>v. case v ''seq_idx'' of Some (Num i) \<Rightarrow> [i] | _ \<Rightarrow> []) vs))
       (- 2147483648)"

definition dequeue_op ::
  "('a::zero) TFBatchingQueue \<Rightarrow> ('a item list \<times> 'a TFBatchingQueue) option" where
  "dequeue_op q =
     (case tf_batch_nums q of
        [] \<Rightarrow> None
      | n # ns \<Rightarrow>
          if int (length (tf_out_queue q)) < n then None
          else
            (let b = dequeue_up_to (nat n) (tf_out_queue q)
             in Some (b, q\<lparr>tf_batch_nums := ns,
                          tf_out_queue := drop (nat n) (tf_out_queue q),
                          last_seq_idx_var := max (last_seq_idx_var q) (reduce_max_seq_idx b),
                          seq_counter := seq_counter q + int (length b),
                          batch_counter := batch_counter q + 1\<rparr>)))"

section \<open>Extern data, coordinator and dataset\<close>

text \<open>
  What the module reads of a \<^verbatim>\<open>Data\<close> object of \<^verbatim>\<open>ExternData.data\<close>: the element type, the
  shape without the batch axis (\<open>None\<close> for an extent that varies), the type of the size
  entries, the axes with a size entry and the two time axis attributes. The dictionary
  \<^verbatim>\<open>extern_data.data\<close> is the list of its items in iteration order.
\<close>

record Data =
  dtype :: string
  shape :: "nat option list"
  size_dtype :: string
  get_axes_with_size :: "nat list"
  time_dim_axis :: "nat option"
  time_dim_axis_excluding_batch :: "nat option"

type_synonym ExternData = "(key \<times> Data) list"

text \<open>
  \<^verbatim>\<open>tf.train.Coordinator\<close>, a class of TensorFlow: the stop event and the first exception
  that was reported with \<^verbatim>\<open>request_stop\<close>. \<^verbatim>\<open>stop_on_exception\<close> catches an exception of its
  body and hands it to \<^verbatim>\<open>request_stop\<close>.
\<close>

record Coordinator =
  stop_requested :: bool
  exc_info_to_raise :: "error option"

text \<open>
  \<^verbatim>\<open>request_stop(ex)\<close>: if the stop event is set already, nothing changes and the exception
  is dropped. Otherwise the exception is stored, unless one is stored already, and the
  stop event is set. The errors of this model are not among the exception types that the
  coordinator takes for a clean stop, and the coordinator is one that has not been joined.
\<close>

definition request_stop :: "error option \<Rightarrow> Coordinator \<Rightarrow> Coordinator" where
  "request_stop ex c =
     (if stop_requested c then c
      else \<lparr>stop_requested = True,
            exc_info_to_raise = (case exc_info_to_raise c of None \<Rightarrow> ex | Some e \<Rightarrow> Some e)\<rparr>)"

text \<open>
  What \<^verbatim>\<open>_get_next_batch\<close> reads of a batch of the \<^verbatim>\<open>BatchSetGenerator\<close> and of its members:
  the sequence a member is cut from (\<^verbatim>\<open>seq_idx\<close>), the frames to cut for every key, the slot of the batch
  and the frame offset in that slot where they go, and the number of frames per key.
\<close>

record BatchSeqCopyPart =
  part_seq_idx :: nat
  seq_start_frame :: "key \<Rightarrow> int"
  seq_end_frame :: "key \<Rightarrow> int"
  batch_slice :: nat
  batch_frame_offset :: "key \<Rightarrow> nat"
  frame_length :: "key \<Rightarrow> int"

record Batch =
  seqs :: "BatchSeqCopyPart list"
  start_seq :: nat
  end_seq :: nat
  get_total_num_frames :: "key \<Rightarrow> int"

text \<open>
  The dataset, a collaborator reached through its methods. A method that raises returns
  \<open>Inl\<close>. Of the shape that \<^verbatim>\<open>shapes_for_batches\<close> gives for a key the model keeps the
  number of slots and the number of frames per slot; the other axes are those of a frame.
\<close>

record 'a Dataset =
  is_less_than_num_seqs :: "nat \<Rightarrow> error + bool"
  get_data :: "nat \<Rightarrow> key \<Rightarrow> error + 'a tensor"
  get_tag :: "nat \<Rightarrow> error + string"
  load_seqs :: "nat \<Rightarrow> nat \<Rightarrow> error option"
  get_data_slice :: "nat \<Rightarrow> key \<Rightarrow> int \<Rightarrow> int \<Rightarrow> error + 'a list"
  shapes_for_batches :: "Batch \<Rightarrow> key \<Rightarrow> nat \<times> nat"

section \<open>DatasetReader\<close>

definition SpecialKeys :: "key list" where
  "SpecialKeys = [''seq_tag'', ''seq_idx'', ''epoch_end'']"

text \<open>The decimal digits of a number, for \<^verbatim>\<open>"%s/size%i" % (key, axis)\<close>.\<close>

definition digit_char :: "nat \<Rightarrow> char" where
  "digit_char d = ''0123456789'' ! d"

function str_nat :: "nat \<Rightarrow> string" where
  "str_nat n = (if n < 10 then [digit_char n] else str_nat (n div 10) @ [digit_char (n mod 10)])"
  by pat_completeness auto
termination
  by (relation "measure id") auto

definition size_key :: "key \<Rightarrow> nat \<Rightarrow> key" where
  "size_key k axis = k @ ''/size'' @ str_nat axis"

text \<open>
  \<^verbatim>\<open>_get_keys\<close>. For a key of the extern data that is not special the source runs
  \<^verbatim>\<open>keys.add(keys)\<close>, which adds the set to itself: a set is not hashable, and Python raises
  \<^verbatim>\<open>TypeError\<close>. The size keys of such a key are therefore never reached.
\<close>

fun get_keys_data :: "ExternData \<Rightarrow> error + key list" where
  "get_keys_data [] = Inr []"
| "get_keys_data ((k, d) # rest) =
     (if k \<in> set SpecialKeys then get_keys_data rest else Inl TypeError)"

definition get_keys :: "ExternData \<Rightarrow> bool \<Rightarrow> bool \<Rightarrow> bool \<Rightarrow> error + key list" where
  "get_keys ed w_tag w_idx w_end =
     (case get_keys_data ed of
        Inl e \<Rightarrow> Inl e
      | Inr ks \<Rightarrow>
          Inr (ks @ (if w_tag then [''seq_tag''] else [])
                  @ (if w_idx then [''seq_idx''] else [])
                  @ (if w_end then [''epoch_end''] else [])))"

text \<open>
  The fields of a \<^verbatim>\<open>DatasetReader\<close> that do not change. The set \<^verbatim>\<open>dict_keys\<close> is kept as a
  list, the order in which \<^verbatim>\<open>_make_end_of_epoch_dict\<close> goes through it.
\<close>

record DatasetReader =
  extern_data :: ExternData
  with_seq_tag :: bool
  with_seq_idx :: bool
  with_epoch_end :: bool
  dict_keys :: "key list"

definition DatasetReader_init ::
  "ExternData \<Rightarrow> bool \<Rightarrow> bool \<Rightarrow> bool \<Rightarrow> error + DatasetReader" where
  "DatasetReader_init ed w_tag w_idx w_end =
     (case get_keys ed w_tag w_idx w_end of
        Inl e \<Rightarrow> Inl e
      | Inr ks \<Rightarrow>
          Inr \<lparr>extern_data = ed, with_seq_tag = w_tag, with_seq_idx = w_idx,
               with_epoch_end = w_end, dict_keys = ks\<rparr>)"

definition get_dtype_for_key :: "ExternData \<Rightarrow> key \<Rightarrow> error + string" where
  "get_dtype_for_key ed k =
     (case map_of ed k of
        Some d \<Rightarrow> Inr (dtype d)
      | None \<Rightarrow>
          if k = ''seq_tag'' then Inr ''string''
          else if k = ''seq_idx'' then Inr ''int32''
          else if k = ''epoch_end'' then Inr ''bool''
          else if sublist ''/size'' k then
            (case map_of ed (takeWhile (\<lambda>c. c \<noteq> CHR ''/'') k) of
               Some d \<Rightarrow> Inr (size_dtype d)
             | None \<Rightarrow> Inl (KeyError (takeWhile (\<lambda>c. c \<noteq> CHR ''/'') k)))
          else Inl (Exception ''invalid key''))"

definition get_shape_for_key :: "ExternData \<Rightarrow> key \<Rightarrow> error + nat option list" where
  "get_shape_for_key ed k =
     (case map_of ed k of
        Some d \<Rightarrow> Inr (shape d)
      | None \<Rightarrow>
          if k \<in> set SpecialKeys then Inr []
          else if sublist ''/size'' k then Inr []
          else Inl (Exception ''invalid key''))"

text \<open>
  \<^verbatim>\<open>numpy.zeros(shape, dtype)\<close>: an extent \<^verbatim>\<open>None\<close> is refused with \<^verbatim>\<open>TypeError\<close>; the empty
  shape gives the scalar zero of the element type.
\<close>

definition numpy_zeros :: "nat option list \<Rightarrow> string \<Rightarrow> error + ('a::zero) tensor" where
  "numpy_zeros sh dt =
     (if None \<in> set sh then Inl TypeError
      else case sh of
             [] \<Rightarrow> Inr (if dt = ''bool'' then Flag False else Num 0)
           | n # rest \<Rightarrow> Inr (Arr (map the rest) (replicate (the n) 0)))"

text \<open>The loop of \<^verbatim>\<open>_make_end_of_epoch_dict\<close> over \<^verbatim>\<open>dict_keys\<close>, filling the dictionary \<open>d\<close>.\<close>

fun end_of_epoch_entries ::
  "ExternData \<Rightarrow> key list \<Rightarrow> ('a::zero) item \<Rightarrow> error + 'a item" where
  "end_of_epoch_entries ed [] d = Inr d"
| "end_of_epoch_entries ed (k # ks) d =
     (case get_dtype_for_key ed k of
        Inl e \<Rightarrow> Inl e
      | Inr dt \<Rightarrow>
          (case get_shape_for_key ed k of
             Inl e \<Rightarrow> Inl e
           | Inr sh \<Rightarrow>
               if dt = ''string'' then end_of_epoch_entries ed ks (d(k \<mapsto> Text []))
               else (case numpy_zeros sh dt of
                       Inl e \<Rightarrow> Inl e
                     | Inr z \<Rightarrow> end_of_epoch_entries ed ks (d(k \<mapsto> z)))))"

definition make_end_of_epoch_dict :: "DatasetReader \<Rightarrow> nat \<Rightarrow> error + ('a::zero) item" where
  "make_end_of_epoch_dict r seq_idx =
     (case end_of_epoch_entries (extern_data r) (dict_keys r) Map.empty of
        Inl e \<Rightarrow> Inl e
      | Inr d \<Rightarrow>
          Inr ((if with_seq_idx r then d(''seq_idx'' \<mapsto> Num (int seq_idx)) else d)
                 (''epoch_end'' \<mapsto> Flag True)))"

text \<open>
  The body of \<^verbatim>\<open>loop\<close> for one sequence: the data of every key that is not special, with
  the extent of every axis that has a size entry, then the three optional entries.
\<close>

fun read_sizes :: "key \<Rightarrow> 'a tensor \<Rightarrow> nat list \<Rightarrow> 'a item \<Rightarrow> error + 'a item" where
  "read_sizes k t [] d = Inr d"
| "read_sizes k t (axis # axes) d =
     (case shape_at t axis of
        Inl e \<Rightarrow> Inl e
      | Inr n \<Rightarrow> read_sizes k t axes (d(size_key k axis \<mapsto> Num n)))"

fun read_data :: "'a Dataset \<Rightarrow> nat \<Rightarrow> ExternData \<Rightarrow> 'a item \<Rightarrow> error + 'a item" where
  "read_data ds seq_idx [] d = Inr d"
| "read_data ds seq_idx ((k, dat) # rest) d =
     (if k \<in> set SpecialKeys then read_data ds seq_idx rest d
      else case get_data ds seq_idx k of
             Inl e \<Rightarrow> Inl e
           | Inr t \<Rightarrow>
               (case read_sizes k t (get_axes_with_size dat) (d(k \<mapsto> t)) of
                  Inl e \<Rightarrow> Inl e
                | Inr d' \<Rightarrow> read_data ds seq_idx rest d'))"

definition read_seq :: "DatasetReader \<Rightarrow> 'a Dataset \<Rightarrow> nat \<Rightarrow> error + 'a item" where
  "read_seq r ds seq_idx =
     (case read_data ds seq_idx (extern_data r) Map.empty of
        Inl e \<Rightarrow> Inl e
      | Inr d \<Rightarrow>
          (case (if with_seq_tag r
                 then (case get_tag ds seq_idx of
                         Inl e \<Rightarrow> Inl e
                       | Inr tag \<Rightarrow> Inr (d(''seq_tag'' \<mapsto> Text tag)))
                 else Inr d) of
             Inl e \<Rightarrow> Inl e
           | Inr d1 \<Rightarrow>
               (let d2 = (if with_seq_idx r then d1(''seq_idx'' \<mapsto> Num (int seq_idx)) else d1);
                    d3 = (if with_epoch_end r then d2(''epoch_end'' \<mapsto> Flag False) else d2)
                in Inr d3)))"

text \<open>
  What a run of \<^verbatim>\<open>loop\<close> leaves behind: the dictionaries that \<^verbatim>\<open>feed_callback\<close> has taken,
  in order, the two fields the loop sets, and the coordinator.
\<close>

record 'a reader_state =
  fed :: "'a item list"
  finished_iterating_seqs :: bool
  final_num_seqs :: "nat option"
  coord :: Coordinator

definition reader_start :: "Coordinator \<Rightarrow> 'a reader_state" where
  "reader_start c =
     \<lparr>fed = [], finished_iterating_seqs = False, final_num_seqs = None, coord = c\<rparr>"

text \<open>
  \<^verbatim>\<open>feed_callback\<close> is a function handed to the reader; \<open>feed d\<close> is the exception it raises
  for the dictionary \<open>d\<close>, if any.
\<close>

definition feed_callback ::
  "('a item \<Rightarrow> error option) \<Rightarrow> 'a item \<Rightarrow> 'a reader_state \<Rightarrow> error + 'a reader_state" where
  "feed_callback feed d st =
     (case feed d of
        Some e \<Rightarrow> Inl e
      | None \<Rightarrow> Inr (st\<lparr>fed := fed st @ [d]\<rparr>))"

definition stop_on_exception :: "error \<Rightarrow> 'a reader_state \<Rightarrow> 'a reader_state" where
  "stop_on_exception e st = st\<lparr>coord := request_stop (Some e) (coord st)\<rparr>"

text \<open>
  One pass through the body of the \<^verbatim>\<open>while True\<close> of \<^verbatim>\<open>loop\<close> at the sequence index
  \<open>seq_idx\<close>: it goes on with the next index, leaves the loop by \<^verbatim>\<open>break\<close>, or raises. \<open>poll i\<close>
  tells whether another thread has requested the stop by the time the loop asks
  \<^verbatim>\<open>coord.should_stop()\<close> at index \<open>i\<close>.
\<close>

datatype 'a iteration =
    Next "'a reader_state"
  | Break "'a reader_state"
  | Raise error "'a reader_state"

definition loop_body ::
  "DatasetReader \<Rightarrow> ('a::zero) Dataset \<Rightarrow> ('a item \<Rightarrow> error option) \<Rightarrow> (nat \<Rightarrow> bool) \<Rightarrow> nat
     \<Rightarrow> 'a reader_state \<Rightarrow> 'a iteration" where
  "loop_body r ds feed poll seq_idx st =
     (case is_less_than_num_seqs ds seq_idx of
        Inl e \<Rightarrow> Raise e st
      | Inr has_seq \<Rightarrow>
          if \<not> has_seq then
            (let st1 = st\<lparr>finished_iterating_seqs := True, final_num_seqs := Some seq_idx\<rparr>
             in if with_epoch_end r then
                  (case make_end_of_epoch_dict r seq_idx of
                     Inl e \<Rightarrow> Raise e st1
                   | Inr d \<Rightarrow>
                       (case feed_callback feed d st1 of
                          Inl e \<Rightarrow> Raise e st1
                        | Inr st2 \<Rightarrow> Break st2))
                else Break st1)
          else if stop_requested (coord st) \<or> poll seq_idx then Break st
          else (case read_seq r ds seq_idx of
                  Inl e \<Rightarrow> Raise e st
                | Inr d \<Rightarrow>
                    (case feed_callback feed d st of
                       Inl e \<Rightarrow> Raise e st
                     | Inr st1 \<Rightarrow> Next st1)))"

text \<open>
  \<^verbatim>\<open>loop\<close>, from the sequence index \<open>seq_idx\<close> on, inside \<^verbatim>\<open>coord.stop_on_exception()\<close>: an
  exception of the body leaves the loop and is handed to \<^verbatim>\<open>request_stop\<close>. The loop need not
  end (a dataset may never report its end), so the result is an option.
\<close>

partial_function (option) reader_loop ::
  "DatasetReader \<Rightarrow> ('a::zero) Dataset \<Rightarrow> ('a item \<Rightarrow> error option) \<Rightarrow> (nat \<Rightarrow> bool) \<Rightarrow> nat
     \<Rightarrow> 'a reader_state \<Rightarrow> 'a reader_state option" where
  "reader_loop r ds feed poll seq_idx st =
     (case loop_body r ds feed poll seq_idx st of
        Next st' \<Rightarrow> reader_loop r ds feed poll (seq_idx + 1) st'
      | Break st' \<Rightarrow> Some st'
      | Raise e st' \<Rightarrow> Some (stop_on_exception e st'))"

definition loop ::
  "DatasetReader \<Rightarrow> ('a::zero) Dataset \<Rightarrow> ('a item \<Rightarrow> error option) \<Rightarrow> (nat \<Rightarrow> bool)
     \<Rightarrow> Coordinator \<Rightarrow> 'a reader_state option" where
  "loop r ds feed poll c = reader_loop r ds feed poll 0 (reader_start c)"

section \<open>TFChunkingQueueRunner\<close>

text \<open>
  The parameters of a \<^verbatim>\<open>TFChunkingQueueRunner\<close> after \<^verbatim>\<open>__init__\<close> has replaced the missing
  ones: \<^verbatim>\<open>chunk_size\<close> (or \<open>None\<close>), \<^verbatim>\<open>chunk_step\<close>, the context window of every key and
  the flag that the source sends the epoch end signal.
\<close>

record TFChunkingQueueRunner =
  chunker_extern_data :: ExternData
  chunk_size :: "int option"
  chunk_step :: int
  context_window :: "key \<Rightarrow> int"
  source_has_epoch_end_signal :: bool

definition default_key_name :: key where
  "default_key_name = ''data''"

text \<open>
  Modelled from the spec: \<^verbatim>\<open>NumbersDict\<close> of \<^verbatim>\<open>Util\<close> is not part of the sources. The spec
  gives the context window as per-key extra frames with default 0 for all keys; an integer
  is the window of the default key.
\<close>

datatype context_window_arg = CwNone | CwInt int | CwDict "key \<Rightarrow> int"

definition NumbersDict :: "context_window_arg \<Rightarrow> key \<Rightarrow> int" where
  "NumbersDict cw =
     (case cw of
        CwNone \<Rightarrow> (\<lambda>k. 0)
      | CwInt n \<Rightarrow> (\<lambda>k. if k = default_key_name then n else 0)
      | CwDict f \<Rightarrow> f)"

text \<open>
  Lines 395 to 402 of \<^verbatim>\<open>__init__\<close>: the parameters, with the missing ones replaced. Whether
  \<^verbatim>\<open>__init__\<close> gets through is \<open>TFChunkingQueueRunner_new\<close> below.
\<close>

definition TFChunkingQueueRunner_init ::
  "ExternData \<Rightarrow> int option \<Rightarrow> int option \<Rightarrow> context_window_arg \<Rightarrow> bool
     \<Rightarrow> TFChunkingQueueRunner" where
  "TFChunkingQueueRunner_init ed csize cstep cw sig =
     \<lparr>chunker_extern_data = ed,
      chunk_size = csize,
      chunk_step = (case cstep of None \<Rightarrow> 1 | Some s \<Rightarrow> s),
      context_window = NumbersDict cw,
      source_has_epoch_end_signal = sig\<rparr>"

text \<open>
  Modelled from the spec: \<^verbatim>\<open>slice_pad_zeros\<close> of \<^verbatim>\<open>TFUtil\<close> is not part of the sources. The
  spec has it extract the frames \<open>[begin, end)\<close> along the time axis, zero-filling any
  portion of that range that falls outside \<open>[0, L)\<close>.
\<close>

definition slice_pad_zeros :: "('a::zero) list \<Rightarrow> int \<Rightarrow> int \<Rightarrow> 'a list" where
  "slice_pad_zeros xs begin end =
     map (\<lambda>p. if 0 \<le> p \<and> p < int (length xs) then xs ! nat p else 0) [begin..end - 1]"

text \<open>
  \<^verbatim>\<open>chunk_loop_body\<close>, first loop: every key of the extern data that contains
  \<^verbatim>\<open>"/size"\<close> is copied from the sequence item.
\<close>

fun copy_size_keys :: "ExternData \<Rightarrow> 'a item \<Rightarrow> 'a item \<Rightarrow> error + 'a item" where
  "copy_size_keys [] seq_item chunk = Inr chunk"
| "copy_size_keys ((k, dat) # rest) seq_item chunk =
     (if sublist ''/size'' k then
        (case seq_item k of
           None \<Rightarrow> Inl (KeyError k)
         | Some t \<Rightarrow> copy_size_keys rest seq_item (chunk(k \<mapsto> t)))
      else copy_size_keys rest seq_item chunk)"

text \<open>
  Second loop: a key without time axis is copied; a key with time axis gets the window
  from \<open>seq_start - context_window[key]\<close> to \<open>seq_end + context_window[key]\<close> and its size
  entry.
\<close>

fun chunk_keys ::
  "(key \<Rightarrow> int) \<Rightarrow> int \<Rightarrow> int \<Rightarrow> ExternData \<Rightarrow> ('a::zero) item \<Rightarrow> 'a item
     \<Rightarrow> error + 'a item" where
  "chunk_keys cw csize seq_start [] seq_item chunk = Inr chunk"
| "chunk_keys cw csize seq_start ((k, dat) # rest) seq_item chunk =
     (if sublist ''/size'' k then chunk_keys cw csize seq_start rest seq_item chunk
      else case seq_item k of
             None \<Rightarrow> Inl AssertionError
           | Some t \<Rightarrow>
               (case time_dim_axis dat of
                  None \<Rightarrow> chunk_keys cw csize seq_start rest seq_item (chunk(k \<mapsto> t))
                | Some ax \<Rightarrow>
                    if ax \<noteq> 0 then Inl AssertionError
                    else (case t of
                            Arr tr xs \<Rightarrow>
                              (let seq_end = min (seq_start + csize) (int (length xs));
                                   w = slice_pad_zeros xs (seq_start - cw k) (seq_end + cw k)
                               in chunk_keys cw csize seq_start rest seq_item
                                    (chunk(k \<mapsto> Arr tr w,
                                           k @ ''/size0'' \<mapsto> Num (seq_end - seq_start + 2 * cw k))))
                          | Text s \<Rightarrow> Inl TypeError
                          | _ \<Rightarrow> Inl IndexError)))"

definition chunk_loop_body ::
  "TFChunkingQueueRunner \<Rightarrow> int \<Rightarrow> ('a::zero) item \<Rightarrow> int \<Rightarrow> error + 'a item" where
  "chunk_loop_body c csize seq_item seq_start =
     (case copy_size_keys (chunker_extern_data c) seq_item Map.empty of
        Inl e \<Rightarrow> Inl e
      | Inr chunk \<Rightarrow>
          chunk_keys (context_window c) csize seq_start (chunker_extern_data c) seq_item chunk)"

text \<open>
  The inner \<^verbatim>\<open>tf.while_loop\<close> (lines 448 to 452): the loop variable \<open>seq_start\<close> moves on by
  \<^verbatim>\<open>chunk_step\<close> while it is below the length of the default key. The body builds the chunk
  at \<open>seq_start\<close>; the enqueue operation of line 445 is made and not used, the body returns
  \<^verbatim>\<open>seq_start + chunk_step\<close> alone, so running the loop runs no enqueue and the target queue
  stays as it is. With a step that is not positive the loop does not end. The result is
  the last \<open>seq_start\<close> and the target queue.
\<close>

partial_function (option) chunk_while ::
  "TFChunkingQueueRunner \<Rightarrow> int \<Rightarrow> ('a::zero) item \<Rightarrow> int \<Rightarrow> int \<Rightarrow> 'a item list
     \<Rightarrow> (error + (int \<times> 'a item list)) option" where
  "chunk_while c csize seq_item default_data_seq_len seq_start target_queue =
     (if seq_start < default_data_seq_len then
        (case chunk_loop_body c csize seq_item seq_start of
           Inl e \<Rightarrow> Some (Inl e)
         | Inr chunk \<Rightarrow>
             chunk_while c csize seq_item default_data_seq_len (seq_start + chunk_step c)
               target_queue)
      else Some (Inr (seq_start, target_queue)))"

text \<open>
  What \<^verbatim>\<open>seq_loop_body\<close> returns: without chunk size the operation alone that would put
  the sequence item into the target queue; with chunk size the stop flag and the result
  of the inner loop.
\<close>

datatype 'a body_result = EnqueueOp "'a item" | StopAndOp bool int

text \<open>
  \<^verbatim>\<open>seq_loop_body\<close> for the dequeued \<open>seq_item\<close>: the three assertions, the length of the
  default key, then the return value, and the target queue after the inner loop.
\<close>

definition seq_loop_body ::
  "TFChunkingQueueRunner \<Rightarrow> ('a::zero) item \<Rightarrow> 'a item list
     \<Rightarrow> (error + ('a body_result \<times> 'a item list)) option" where
  "seq_loop_body c seq_item target_queue =
     (case seq_item default_key_name of
        None \<Rightarrow> Some (Inl AssertionError)
      | Some t \<Rightarrow>
          (case map_of (chunker_extern_data c) default_key_name of
             None \<Rightarrow> Some (Inl AssertionError)
           | Some dat \<Rightarrow>
               if time_dim_axis_excluding_batch dat \<noteq> Some 0 then Some (Inl AssertionError)
               else (case shape_at t 0 of
                       Inl e \<Rightarrow> Some (Inl e)
                     | Inr default_data_seq_len \<Rightarrow>
                         (case chunk_size c of
                            None \<Rightarrow> Some (Inr (EnqueueOp seq_item, target_queue))
                          | Some csize \<Rightarrow>
                              (case chunk_while c csize seq_item default_data_seq_len 0
                                      target_queue of
                                 None \<Rightarrow> None
                               | Some (Inl e) \<Rightarrow> Some (Inl e)
                               | Some (Inr (last_start, tq)) \<Rightarrow>
                                   if source_has_epoch_end_signal c then
                                     (case seq_item ''epoch_end'' of
                                        None \<Rightarrow> Some (Inl (KeyError ''epoch_end''))
                                      | Some (Flag stop) \<Rightarrow> Some (Inr (StopAndOp stop last_start, tq))
                                      | Some _ \<Rightarrow> Some (Inl TypeError))
                                   else Some (Inr (StopAndOp False last_start, tq)))))))"

text \<open>
  The values that \<^verbatim>\<open>seq_loop_body\<close> returns to \<^verbatim>\<open>tf.while_loop\<close>: one operation without
  chunk size (line 421), the stop flag and a tensor with it (line 457).
\<close>

definition seq_loop_body_values :: "int option \<Rightarrow> loop_value list" where
  "seq_loop_body_values csize =
     (case csize of None \<Rightarrow> [Operation] | Some cs \<Rightarrow> [Tensor, Tensor])"

text \<open>
  \<^verbatim>\<open>__init__\<close>: after the parameters, the outer \<^verbatim>\<open>tf.while_loop\<close> (lines 459 to 463) is
  handed \<^verbatim>\<open>[False, tf.no_op()]\<close> as loop variables, and its result is unpacked into three
  names. An exception leaves \<^verbatim>\<open>__init__\<close>, and no object is made.
\<close>

definition TFChunkingQueueRunner_new ::
  "ExternData \<Rightarrow> int option \<Rightarrow> int option \<Rightarrow> context_window_arg \<Rightarrow> bool
     \<Rightarrow> error + TFChunkingQueueRunner" where
  "TFChunkingQueueRunner_new ed csize cstep cw sig =
     (case tf_while_loop [Tensor, Operation] (seq_loop_body_values csize) of
        Inl e \<Rightarrow> Inl e
      | Inr res \<Rightarrow>
          if length res \<noteq> 3 then Inl ValueError
          else Inr (TFChunkingQueueRunner_init ed csize cstep cw sig))"

section \<open>FeedDictDataProvider\<close>

text \<open>
  The arrays \<^verbatim>\<open>_get_next_batch\<close> fills: for every data key the batch array, one row of
  frames per slot, and the sequence lengths, one per slot. \<open>calls\<close> lists the members and
  keys for which \<^verbatim>\<open>get_data_slice\<close> has been called, \<open>raised\<close> holds the exception that ended
  the loops, if any.
\<close>

record 'a batch_fill =
  data :: "key \<rightharpoonup> 'a list list"
  seq_lens :: "key \<rightharpoonup> int list"
  calls :: "(BatchSeqCopyPart \<times> key) list"
  raised :: "error option"

text \<open>
  The body of the inner loop for the member \<open>seq\<close> and the key \<open>k\<close>. A key of frame length
  0 is skipped. The assignment \<^verbatim>\<open>data[k][q, o[k]:o[k] + ls] = v\<close> (\<open>off\<close> is \<^verbatim>\<open>o[k]\<close>) clips the slice
  to the row;
  numpy then accepts \<open>v\<close> if it has as many frames as the clipped slice, or one frame (which
  it repeats, here over an empty slice), and raises \<^verbatim>\<open>ValueError\<close> otherwise.
\<close>

definition fill_key ::
  "'a Dataset \<Rightarrow> BatchSeqCopyPart \<Rightarrow> key \<Rightarrow> 'a batch_fill \<Rightarrow> 'a batch_fill" where
  "fill_key ds seq k st =
     (if raised st \<noteq> None then st
      else if frame_length seq k = 0 then st
      else
        (let st1 = st\<lparr>calls := calls st @ [(seq, k)]\<rparr>
         in case get_data_slice ds (part_seq_idx seq) k (seq_start_frame seq k) (seq_end_frame seq k) of
              Inl e \<Rightarrow> st1\<lparr>raised := Some e\<rparr>
            | Inr v \<Rightarrow>
                (let ls = length v; q = batch_slice seq; off = batch_frame_offset seq k
                 in if int ls \<noteq> frame_length seq k
                    then st1\<lparr>raised := Some (Exception ''got shape[0]'')\<rparr>
                    else
                      (case (data st1 k, seq_lens st1 k) of
                         (Some rows, Some lens) \<Rightarrow>
                           if q \<ge> length rows \<or> q \<ge> length lens then st1\<lparr>raised := Some IndexError\<rparr>
                           else
                             (let row = rows ! q;
                                  lo = min off (length row);
                                  hi = min (off + ls) (length row)
                              in if hi - lo \<noteq> ls \<and> ls \<noteq> 1 then st1\<lparr>raised := Some ValueError\<rparr>
                                 else
                                   st1\<lparr>data := (data st1)
                                          (k \<mapsto> rows[q := (if hi - lo = ls
                                                            then take off row @ v @ drop (off + ls) row
                                                            else row)]),
                                       seq_lens := (seq_lens st1)
                                          (k \<mapsto> lens[q := max (lens ! q) (int (off + ls))])\<rparr>)
                       | _ \<Rightarrow> st1\<lparr>raised := Some (KeyError k)\<rparr>))))"

definition fill_seq ::
  "'a Dataset \<Rightarrow> key list \<Rightarrow> BatchSeqCopyPart \<Rightarrow> 'a batch_fill \<Rightarrow> 'a batch_fill" where
  "fill_seq ds data_keys seq st = fold (fill_key ds seq) data_keys st"

definition fill_batch ::
  "'a Dataset \<Rightarrow> key list \<Rightarrow> Batch \<Rightarrow> 'a batch_fill \<Rightarrow> 'a batch_fill" where
  "fill_batch ds data_keys batch st = fold (fill_seq ds data_keys) (seqs batch) st"

text \<open>The two dictionaries of zeros that \<^verbatim>\<open>_get_next_batch\<close> starts from.\<close>

definition zeros_fill :: "'a Dataset \<Rightarrow> key list \<Rightarrow> Batch \<Rightarrow> ('a::zero) batch_fill" where
  "zeros_fill ds data_keys batch =
     \<lparr>data = (\<lambda>k. if k \<in> set data_keys
                   then Some (replicate (fst (shapes_for_batches ds batch k))
                                (replicate (snd (shapes_for_batches ds batch k)) 0))
                   else None),
      seq_lens = (\<lambda>k. if k \<in> set data_keys
                       then Some (replicate (fst (shapes_for_batches ds batch k)) 0)
                       else None),
      calls = [],
      raised = None\<rparr>"

text \<open>
  The state of a \<^verbatim>\<open>FeedDictDataProvider\<close>: the data keys, the batches still to come from
  the \<^verbatim>\<open>BatchSetGenerator\<close>, the Python queue (\<open>None\<close> when a TensorFlow queue is used
  instead) and the TensorFlow queue, the frame counter, the two flags, the coordinator,
  and the exceptions that \<^verbatim>\<open>thread_main\<close> has printed.
\<close>

datatype 'a feed = Rows "'a list list" | Lens "int list"

type_synonym 'a enqueue_args = "key \<rightharpoonup> 'a feed"

record 'a FeedDictDataProvider =
  data_keys :: "key list"
  batches :: "Batch list"
  queue :: "'a enqueue_args list option"
  tf_queue :: "'a enqueue_args list"
  num_frames :: "key \<Rightarrow> int"
  thread_finished :: bool
  reached_end :: bool
  provider_coord :: Coordinator
  printed :: "error list"

text \<open>
  \<^verbatim>\<open>_get_next_batch\<close>: the next batch is looked at, not taken. The result is the final state
  of the filling, with the calls made, and the provider with its frame counter raised.
\<close>

definition get_next_batch_fill ::
  "('a::zero) Dataset \<Rightarrow> 'a FeedDictDataProvider \<Rightarrow> 'a batch_fill \<times> 'a FeedDictDataProvider" where
  "get_next_batch_fill ds p =
     (case batches p of
        [] \<Rightarrow> (\<lparr>data = Map.empty, seq_lens = Map.empty, calls = [], raised = Some ValueError\<rparr>, p)
      | batch # rest \<Rightarrow>
          (case load_seqs ds (start_seq batch) (end_seq batch) of
             Some e \<Rightarrow> ((zeros_fill ds (data_keys p) batch)\<lparr>raised := Some e\<rparr>, p)
           | None \<Rightarrow>
               (fill_batch ds (data_keys p) batch (zeros_fill ds (data_keys p) batch),
                p\<lparr>num_frames := (\<lambda>k. num_frames p k + get_total_num_frames batch k)\<rparr>)))"

text \<open>
  \<^verbatim>\<open>get_next_batch\<close>: the batch arrays under their keys and the sequence lengths under the
  keys with \<^verbatim>\<open>"_seq_lens"\<close> appended, or the exception.
\<close>

definition get_next_batch ::
  "('a::zero) Dataset \<Rightarrow> 'a FeedDictDataProvider
     \<Rightarrow> (error + 'a enqueue_args) \<times> 'a FeedDictDataProvider" where
  "get_next_batch ds p =
     (case get_next_batch_fill ds p of
        (st, p') \<Rightarrow>
          (case raised st of
             Some e \<Rightarrow> (Inl e, p')
           | None \<Rightarrow>
               (Inr (fold (\<lambda>k args. case seq_lens st k of
                                       None \<Rightarrow> args
                                     | Some l \<Rightarrow> args(k @ ''_seq_lens'' \<mapsto> Lens l))
                       (data_keys p') (\<lambda>k. map_option Rows (data st k))),
                p')))"

text \<open>
  The loop of \<^verbatim>\<open>thread_main\<close>. \<open>poll i\<close> tells whether another thread has requested the stop
  by the time the loop asks \<^verbatim>\<open>coord.should_stop()\<close> for the \<open>i\<close>-th time. The result is the
  exception that left the loop, if any, and the provider.
\<close>

function thread_loop ::
  "('a::zero) Dataset \<Rightarrow> (nat \<Rightarrow> bool) \<Rightarrow> nat \<Rightarrow> 'a FeedDictDataProvider
     \<Rightarrow> error option \<times> 'a FeedDictDataProvider" where
  "thread_loop ds poll i p =
     (if batches p \<noteq> [] \<and> \<not> (stop_requested (provider_coord p) \<or> poll i) then
        (case get_next_batch ds p of
           (Inl e, p1) \<Rightarrow> (Some e, p1)
         | (Inr enqueue_args, p1) \<Rightarrow>
             thread_loop ds poll (i + 1)
               ((case queue p1 of
                   Some qu \<Rightarrow> p1\<lparr>queue := Some (qu @ [enqueue_args])\<rparr>
                 | None \<Rightarrow> p1\<lparr>tf_queue := tf_queue p1 @ [enqueue_args]\<rparr>)\<lparr>batches := tl (batches p1)\<rparr>))
      else (None, p))"
  by pat_completeness auto
termination
  by (relation "measure (\<lambda>(ds, poll, i, p). length (batches p))")
     (auto simp: get_next_batch_def get_next_batch_fill_def
        split: option.splits list.splits prod.splits)

text \<open>
  \<^verbatim>\<open>thread_main\<close>: after the loop \<^verbatim>\<open>reached_end\<close> is set; an exception is caught and
  printed; in every case \<^verbatim>\<open>thread_finished\<close> is set. The coordinator is only read.
\<close>

definition thread_main ::
  "('a::zero) Dataset \<Rightarrow> (nat \<Rightarrow> bool) \<Rightarrow> 'a FeedDictDataProvider \<Rightarrow> 'a FeedDictDataProvider" where
  "thread_main ds poll p =
     (case thread_loop ds poll 0 p of
        (None, p1) \<Rightarrow> p1\<lparr>reached_end := (batches p1 = []), thread_finished := True\<rparr>
      | (Some e, p1) \<Rightarrow> p1\<lparr>printed := printed p1 @ [e], thread_finished := True\<rparr>)"

section \<open>QueueDataProvider\<close>

text \<open>
  Of a \<^verbatim>\<open>QueueDataProvider\<close>: the batching queue, the current dataset reader with the fields
  its loop sets (or \<open>None\<close>), and \<^verbatim>\<open>_last_seq_idx\<close>.
\<close>

record 'a QueueDataProvider =
  batch_queue :: "'a TFBatchingQueue"
  cur_dataset_reader :: "'a reader_state option"
  last_seq_idx :: "int option"

definition update_last_seq_idx :: "'a QueueDataProvider \<Rightarrow> 'a QueueDataProvider" where
  "update_last_seq_idx p = p\<lparr>last_seq_idx := Some (last_seq_idx_var (batch_queue p))\<rparr>"

text \<open>
  \<^verbatim>\<open>have_more_data\<close>. The value that \<^verbatim>\<open>session.run\<close> returns for the variable is a numpy
  integer; adding the Python integer 1 to it is read as exact.
\<close>

definition have_more_data ::
  "'a QueueDataProvider \<Rightarrow> error + (bool \<times> 'a QueueDataProvider)" where
  "have_more_data p =
     (case cur_dataset_reader p of
        None \<Rightarrow> Inl AssertionError
      | Some rd \<Rightarrow>
          (case final_num_seqs rd of
             None \<Rightarrow> Inr (True, p)
           | Some n \<Rightarrow>
               (let p' = update_last_seq_idx p;
                    is_at_end = (case last_seq_idx p' of
                                   Some l \<Rightarrow> l + 1 \<ge> int n
                                 | None \<Rightarrow> False)
                in Inr (\<not> is_at_end, p'))))"

section \<open>Example inputs and predicates of the properties\<close>

text \<open>
  A member with \<open>n\<close> frames under the key \<^verbatim>\<open>"data"\<close>, and the variables and queues of a
  batching queue over that key whose time axis is axis 0.
\<close>

definition example_member :: "nat \<Rightarrow> nat \<Rightarrow> int item" where
  "example_member i n =
     [''data'' \<mapsto> Arr [] (replicate n 1), ''seq_idx'' \<mapsto> Num (int i),
      ''epoch_end'' \<mapsto> Flag False]"

definition example_queue :: "int \<Rightarrow> int \<Rightarrow> int TFBatchingQueue" where
  "example_queue bs ms = TFBatchingQueue_init bs ms ''data'' (Some 0)"

text \<open>
  Extern data with the one key \<^verbatim>\<open>"data"\<close>, a sequence of frames and time axis 0, a chunker
  over it and a sequence whose frames are the numbers from 1 to \<open>n\<close>.
\<close>

definition example_data :: Data where
  "example_data =
     \<lparr>dtype = ''float32'', shape = [None], size_dtype = ''int32'', get_axes_with_size = [0],
      time_dim_axis = Some 0, time_dim_axis_excluding_batch = Some 0\<rparr>"

definition example_chunker :: "int option \<Rightarrow> int \<Rightarrow> int \<Rightarrow> TFChunkingQueueRunner" where
  "example_chunker csize cstep cw =
     TFChunkingQueueRunner_init [(''data'', example_data)] csize (Some cstep) (CwInt cw) False"

definition example_seq :: "nat \<Rightarrow> int item" where
  "example_seq n = [''data'' \<mapsto> Arr [] (map int [1..<Suc n]), ''epoch_end'' \<mapsto> Flag False]"

text \<open>
  A dataset of \<open>n\<close> sequences, the \<open>i\<close>-th of \<open>i + 1\<close> frames, whose slices have the frames
  asked for and whose batch shapes are the slots and frames that the members of the batch
  take up; and the same dataset whose \<^verbatim>\<open>get_data\<close>, \<^verbatim>\<open>get_tag\<close> and \<^verbatim>\<open>load_seqs\<close> raise at
  sequence \<open>bad\<close>.
\<close>

definition example_dataset :: "nat \<Rightarrow> int Dataset" where
  "example_dataset n =
     \<lparr>is_less_than_num_seqs = (\<lambda>i. Inr (i < n)),
      get_data = (\<lambda>i k. Inr (Arr [] (replicate (Suc i) 1))),
      get_tag = (\<lambda>i. Inr ''seq''),
      load_seqs = (\<lambda>a b. None),
      get_data_slice = (\<lambda>i k s e. Inr (replicate (nat (e - s)) 1)),
      shapes_for_batches =
        (\<lambda>b k. (fold max (map (\<lambda>s. Suc (batch_slice s)) (seqs b)) 0,
                 fold max (map (\<lambda>s. batch_frame_offset s k + nat (frame_length s k)) (seqs b)) 0))\<rparr>"

definition failing_dataset :: "nat \<Rightarrow> nat \<Rightarrow> int Dataset" where
  "failing_dataset n bad =
     (example_dataset n)
       \<lparr>get_data := (\<lambda>i k. if i = bad then Inl (Exception ''read error'')
                            else Inr (Arr [] (replicate (Suc i) 1))),
        get_tag := (\<lambda>i. if i = bad then Inl (Exception ''read error'') else Inr ''seq''),
        load_seqs := (\<lambda>a b. if a = bad then Some (Exception ''read error'') else None)\<rparr>"

text \<open>A dataset that cannot tell whether it has a sequence.\<close>

definition unreadable_dataset :: "int Dataset" where
  "unreadable_dataset =
     (example_dataset 0)\<lparr>is_less_than_num_seqs := (\<lambda>i. Inl (Exception ''read error''))\<rparr>"

text \<open>
  Readers with the epoch end option: one as \<^verbatim>\<open>__init__\<close> builds it for extern data
  without data keys, with or without the sequence index; and the fields of a reader over
  the key \<^verbatim>\<open>"data"\<close>, with the keys that \<^verbatim>\<open>_get_keys\<close> is written to collect.
\<close>

definition example_reader :: "bool \<Rightarrow> DatasetReader" where
  "example_reader w_idx =
     \<lparr>extern_data = [], with_seq_tag = True, with_seq_idx = w_idx, with_epoch_end = True,
      dict_keys = [''seq_tag''] @ (if w_idx then [''seq_idx''] else []) @ [''epoch_end'']\<rparr>"

definition data_reader :: DatasetReader where
  "data_reader =
     \<lparr>extern_data = [(''data'', example_data)], with_seq_tag = False, with_seq_idx = True,
      with_epoch_end = True, dict_keys = [''data'', ''data/size0'', ''seq_idx'', ''epoch_end'']\<rparr>"

definition no_stop :: Coordinator where
  "no_stop = \<lparr>stop_requested = False, exc_info_to_raise = None\<rparr>"

text \<open>A coordinator whose stop has been requested, without an exception.\<close>

definition stopped :: Coordinator where
  "stopped = \<lparr>stop_requested = True, exc_info_to_raise = None\<rparr>"

text \<open>
  A batch of two members that share slot 0: the first has 2 frames of \<^verbatim>\<open>"data"\<close> and none of
  \<^verbatim>\<open>"classes"\<close>, the second follows it with 3 frames of each. And a provider that has this
  batch to come.
\<close>

definition example_part ::
  "nat \<Rightarrow> nat \<Rightarrow> (key \<Rightarrow> nat) \<Rightarrow> (key \<Rightarrow> int) \<Rightarrow> BatchSeqCopyPart" where
  "example_part i slot off len =
     \<lparr>part_seq_idx = i, seq_start_frame = (\<lambda>k. 0), seq_end_frame = len,
      batch_slice = slot, batch_frame_offset = off, frame_length = len\<rparr>"

definition example_batch :: Batch where
  "example_batch =
     \<lparr>seqs = [example_part 0 0 (\<lambda>k. 0) (\<lambda>k. if k = ''classes'' then 0 else 2),
              example_part 1 0 (\<lambda>k. if k = ''classes'' then 0 else 2) (\<lambda>k. 3)],
      start_seq = 0, end_seq = 2,
      get_total_num_frames = (\<lambda>k. if k = ''classes'' then 3 else 5)\<rparr>"

definition example_provider :: "int FeedDictDataProvider" where
  "example_provider =
     \<lparr>data_keys = [''classes'', ''data''], batches = [example_batch], queue = Some [],
      tf_queue = [], num_frames = (\<lambda>k. 0), thread_finished = False, reached_end = False,
      provider_coord = no_stop, printed = []\<rparr>"

text \<open>
  The same two members in two slots of their own, and a provider that has this batch to
  come.
\<close>

definition example_batch_slots :: Batch where
  "example_batch_slots =
     \<lparr>seqs = [example_part 0 0 (\<lambda>k. 0) (\<lambda>k. if k = ''classes'' then 0 else 2),
              example_part 1 1 (\<lambda>k. 0) (\<lambda>k. 3)],
      start_seq = 0, end_seq = 2,
      get_total_num_frames = (\<lambda>k. if k = ''classes'' then 3 else 5)\<rparr>"

definition example_provider_slots :: "int FeedDictDataProvider" where
  "example_provider_slots = example_provider\<lparr>batches := [example_batch_slots]\<rparr>"

text \<open>
  The row of the slot \<open>q\<close> in the batch array of the key \<open>k\<close> holds \<open>t\<close> zero frames, and the
  sequence length of the slot is 0.
\<close>

definition slot_zero :: "key \<Rightarrow> nat \<Rightarrow> nat \<Rightarrow> ('a::zero) batch_fill \<Rightarrow> bool" where
  "slot_zero k q t st =
     (case (data st k, seq_lens st k) of
        (Some rows, Some lens) \<Rightarrow>
          q < length rows \<and> q < length lens \<and> rows ! q = replicate t 0 \<and> lens ! q = 0
      | _ \<Rightarrow> False)"

section \<open>Properties of the batching queue\<close>

lemma shape_at_Arr_0: "shape_at (Arr tr xs) 0 = Inr (int (length xs))"
  by (simp add: shape_at_def)

text \<open>
  \<^verbatim>\<open>__init__\<close> of \<^verbatim>\<open>TFBatchingQueue\<close> raises for every argument: an assertion fails for data
  queues with a batch axis or for a batch axis that is not 0, and otherwise the loop of
  line 501 is refused, because \<^verbatim>\<open>tf.no_op()\<close> is not a tensor.
\<close>

lemma TFBatchingQueue_new_raises:
  "(TFBatchingQueue_new with_batch axes bs ms dk ta :: error + 'a TFBatchingQueue) =
     Inl (if with_batch then AssertionError
          else if filter (\<lambda>a. a \<noteq> Some 0) axes = [] then TypeError
          else AssertionError)"
  by (simp add: TFBatchingQueue_new_def make_enqueue_loop_op_def tf_while_loop_def)




section \<open>Properties of the chunker\<close>

text \<open>
  \<^verbatim>\<open>__init__\<close> of \<^verbatim>\<open>TFChunkingQueueRunner\<close> raises \<^verbatim>\<open>TypeError\<close> for every argument: the outer
  loop is refused because \<^verbatim>\<open>tf.no_op()\<close> is not a tensor.
\<close>

lemma TFChunkingQueueRunner_new_raises:
  "TFChunkingQueueRunner_new ed csize cstep cw sig = Inl TypeError"
  by (simp add: TFChunkingQueueRunner_new_def tf_while_loop_def)

text \<open>Whatever the inner loop returns, the target queue is as it was.\<close>

lemma chunk_while_target_queue:
  assumes "chunk_while c cs item L start tq = Some res"
  shows "case res of Inl e \<Rightarrow> True | Inr (last_start, tq') \<Rightarrow> tq' = tq"
  using assms
proof (induction rule: chunk_while.raw_induct[rotated 1, consumes 1])
  case (1 f c cs item L start tq res)
  show ?case
    using 1(2) by (auto split: if_splits sum.splits dest!: 1(1))
qed

lemmas example_chunker_defs =
  example_chunker_def example_data_def example_seq_def TFChunkingQueueRunner_init_def
  NumbersDict_def default_key_name_def chunk_loop_body_def Let_def


lemma not_sublist_size_data: "\<not> sublist ''/size'' ''data''"
  by (simp add: sublist_Cons_right)

lemma example_chunk_loop_body:
  "\<exists>chunk. chunk_loop_body (example_chunker (Some 4) 4 0) 4 (example_seq 10) s = Inr chunk"
  by (simp add: example_chunker_defs not_sublist_size_data)

text \<open>
  Claim C3 speaks of the chunks that the chunker emits for a sequence. For extern data
  with the key \<^verbatim>\<open>"data"\<close>, \<^verbatim>\<open>chunk_size = 4\<close> and \<^verbatim>\<open>chunk_step = 4\<close>, \<^verbatim>\<open>__init__\<close> raises
  \<^verbatim>\<open>TypeError\<close>, so there is no chunker. And the inner loop as it is written, run on a
  sequence of 10 frames from the start 0 with an empty target queue, ends at the start 12
  with the target queue still empty: the starts 0, 4 and 8 are gone through, and no chunk
  is put into the queue.
\<close>

theorem chunks_not_enqueued:
  "TFChunkingQueueRunner_new [(''data'', example_data)] (Some 4) (Some 4) (CwInt 0) False =
     Inl TypeError
   \<and> chunk_while (example_chunker (Some 4) 4 0) 4 (example_seq 10) 10 0 [] = Some (Inr (12, []))"
proof -
  let ?c = "example_chunker (Some 4) 4 0"
  have s: "chunk_step ?c = 4" by (simp add: example_chunker_defs)
  have b: "\<And>st. \<exists>chunk. chunk_loop_body ?c 4 (example_seq 10) st = Inr chunk"
    by (rule example_chunk_loop_body)
  have w3: "chunk_while ?c 4 (example_seq 10) 10 12 [] = Some (Inr (12, []))"
    by (subst chunk_while.simps) simp
  have w2: "chunk_while ?c 4 (example_seq 10) 10 8 [] = Some (Inr (12, []))"
    using b[of 8] w3 s by (subst chunk_while.simps) auto
  have w1: "chunk_while ?c 4 (example_seq 10) 10 4 [] = Some (Inr (12, []))"
    using b[of 4] w2 s by (subst chunk_while.simps) auto
  have w0: "chunk_while ?c 4 (example_seq 10) 10 0 [] = Some (Inr (12, []))"
    using b[of 0] w1 s by (subst chunk_while.simps) auto
  show ?thesis using w0 by (simp add: TFChunkingQueueRunner_new_raises)
qed







text \<open>
  Claim C5 speaks of the sequence items that the chunker forwards when there is no chunk
  size. For extern data with the key \<^verbatim>\<open>"data"\<close> and no chunk size \<^verbatim>\<open>__init__\<close> raises
  \<^verbatim>\<open>TypeError\<close>, so there is no chunker that forwards anything. The body of the loop, for a
  sequence item of 3 frames, returns the enqueue operation of that item alone and leaves
  the target queue as it is; a loop with two loop variables is refused for such a body
  with \<^verbatim>\<open>ValueError\<close>, also when both loop variables are tensors.
\<close>

theorem passthrough_not_built:
  "TFChunkingQueueRunner_new [(''data'', example_data)] None None CwNone False = Inl TypeError
   \<and> seq_loop_body (example_chunker None 1 0) (example_seq 3) [] =
       Some (Inr (EnqueueOp (example_seq 3), []))
   \<and> tf_while_loop [Tensor, Tensor] (seq_loop_body_values None) = Inl ValueError"
proof -
  have a: "seq_loop_body (example_chunker None 1 0) (example_seq 3) [] =
       Some (Inr (EnqueueOp (example_seq 3), []))"
    by (simp add: seq_loop_body_def example_chunker_def TFChunkingQueueRunner_init_def
        default_key_name_def example_data_def example_seq_def shape_at_Arr_0)
  have b: "tf_while_loop [Tensor, Tensor] (seq_loop_body_values None) = Inl ValueError"
    by (simp add: tf_while_loop_def seq_loop_body_values_def)
  show ?thesis using a b by (simp add: TFChunkingQueueRunner_new_raises)
qed

section \<open>Properties of the dataset reader\<close>

text \<open>
  Claim C6 speaks of the sentinel that a \<^verbatim>\<open>DatasetReader\<close> with the epoch end option
  delivers, zero-filled for every key. For extern data with the key \<^verbatim>\<open>"data"\<close>, a sequence
  of frames, \<^verbatim>\<open>__init__\<close> raises \<^verbatim>\<open>TypeError\<close> whatever the other options are: \<^verbatim>\<open>_get_keys\<close> adds
  the set of keys to itself. And for a reader that had the keys that \<^verbatim>\<open>_get_keys\<close> is
  written to collect, \<^verbatim>\<open>_make_end_of_epoch_dict\<close> raises \<^verbatim>\<open>TypeError\<close> at every index: the shape
  of the key \<^verbatim>\<open>"data"\<close> has an extent that is not known, and \<^verbatim>\<open>numpy.zeros\<close> refuses it. No
  sentinel is built.
\<close>

theorem sentinel_reader_not_built:
  "DatasetReader_init [(''data'', example_data)] w_tag w_idx True = Inl TypeError
   \<and> (make_end_of_epoch_dict data_reader n :: error + int item) = Inl TypeError"
proof -
  have a: "DatasetReader_init [(''data'', example_data)] w_tag w_idx True = Inl TypeError"
    by (simp add: DatasetReader_init_def get_keys_def SpecialKeys_def)
  have b: "(make_end_of_epoch_dict data_reader n :: error + int item) = Inl TypeError"
    by (simp add: make_end_of_epoch_dict_def data_reader_def example_data_def
        get_dtype_for_key_def get_shape_for_key_def numpy_zeros_def)
  show ?thesis using a b by simp
qed

text \<open>
  The pass through the body of the loop leaves the coordinator as it is, whichever way it
  ends.
\<close>

lemma loop_body_coord:
  "(case loop_body r ds feed poll j st of
      Next s \<Rightarrow> coord s = coord st
    | Break s \<Rightarrow> coord s = coord st
    | Raise e s \<Rightarrow> coord s = coord st)"
  by (auto simp: loop_body_def feed_callback_def Let_def split: sum.splits option.splits)

lemma loop_body_Next_coord:
  "loop_body r ds feed poll j st = Next s \<Longrightarrow> coord s = coord st"
  using loop_body_coord[where r = r and ds = ds and feed = feed and poll = poll and j = j and st = st]
  by simp

lemma loop_body_Raise_coord:
  "loop_body r ds feed poll j st = Raise e s \<Longrightarrow> coord s = coord st"
  using loop_body_coord[where r = r and ds = ds and feed = feed and poll = poll and j = j and st = st]
  by simp

text \<open>
  As long as the passes go on to the next index, the loop from the index \<open>i\<close> is the loop
  from the index \<open>n\<close>, and the coordinator is the one the loop started with.
\<close>

lemma reader_loop_steps:
  assumes "\<forall>j. i \<le> j \<and> j < n \<longrightarrow> loop_body r ds feed poll j (sts j) = Next (sts (Suc j))"
    and "i \<le> n"
  shows "reader_loop r ds feed poll i (sts i) = reader_loop r ds feed poll n (sts n)
       \<and> coord (sts n) = coord (sts i)"
  using assms
proof (induction "n - i" arbitrary: i)
  case 0
  then show ?case by simp
next
  case (Suc m)
  then have lt: "i < n" by simp
  have s: "loop_body r ds feed poll i (sts i) = Next (sts (Suc i))"
    using Suc.prems(1) lt by simp
  have u: "reader_loop r ds feed poll i (sts i) = reader_loop r ds feed poll (Suc i) (sts (Suc i))"
    using s by (subst reader_loop.simps) simp
  have c: "coord (sts (Suc i)) = coord (sts i)"
    using loop_body_Next_coord[OF s] .
  have "reader_loop r ds feed poll (Suc i) (sts (Suc i)) = reader_loop r ds feed poll n (sts n)
       \<and> coord (sts n) = coord (sts (Suc i))"
    using Suc.hyps(2) Suc.prems lt by (intro Suc.hyps(1)) auto
  then show ?case using u c by simp
qed

lemma reader_loop_raise:
  assumes "loop_body r ds feed poll n st = Raise e st'"
  shows "reader_loop r ds feed poll n st =
           Some (st'\<lparr>coord := request_stop (Some e) (coord st)\<rparr>)"
  using assms loop_body_Raise_coord[OF assms]
  by (subst reader_loop.simps) (simp add: stop_on_exception_def)

section \<open>Errors in the background loops\<close>

lemma get_next_batch_fields:
  assumes "get_next_batch ds p = (res, p1)"
  shows "provider_coord p1 = provider_coord p \<and> printed p1 = printed p \<and>
         reached_end p1 = reached_end p \<and> thread_finished p1 = thread_finished p \<and>
         batches p1 = batches p \<and> queue p1 = queue p \<and> tf_queue p1 = tf_queue p"
  using assms
  by (auto simp: get_next_batch_def get_next_batch_fill_def
      split: list.splits option.splits prod.splits)

text \<open>The loop of \<^verbatim>\<open>thread_main\<close> leaves the coordinator and the flags as they are.\<close>

lemma thread_loop_fields:
  "thread_loop ds poll i p = (r, p') \<Longrightarrow>
     provider_coord p' = provider_coord p \<and> printed p' = printed p \<and>
     reached_end p' = reached_end p \<and> thread_finished p' = thread_finished p"
proof (induction ds poll i p arbitrary: r p' rule: thread_loop.induct)
  case (1 ds poll i p)
  show ?case
  proof (cases "batches p \<noteq> [] \<and> \<not> (stop_requested (provider_coord p) \<or> poll i)")
    case False
    then show ?thesis using "1.prems" by (subst (asm) thread_loop.simps) auto
  next
    case True
    obtain res p1 where g: "get_next_batch ds p = (res, p1)" by (cases "get_next_batch ds p")
    note f = get_next_batch_fields[OF g]
    show ?thesis
    proof (cases res)
      case (Inl e)
      then show ?thesis using "1.prems" True g f by (subst (asm) thread_loop.simps) auto
    next
      case (Inr args)
      let ?p2 = "(case queue p1 of
                   Some qu \<Rightarrow> p1\<lparr>queue := Some (qu @ [args])\<rparr>
                 | None \<Rightarrow> p1\<lparr>tf_queue := tf_queue p1 @ [args]\<rparr>)\<lparr>batches := tl (batches p1)\<rparr>"
      have r: "thread_loop ds poll (i + 1) ?p2 = (r, p')"
        using "1.prems" True g Inr by (subst (asm) thread_loop.simps) simp
      have "provider_coord p' = provider_coord ?p2 \<and> printed p' = printed ?p2 \<and>
            reached_end p' = reached_end ?p2 \<and> thread_finished p' = thread_finished ?p2"
        using "1.IH"[OF True g[symmetric] Inr r] by simp
      then show ?thesis using f by (auto split: option.splits)
    qed
  qed
qed

lemma thread_main_error:
  assumes "thread_loop ds poll 0 p = (Some e, p1)"
  shows "thread_main ds poll p = p1\<lparr>printed := printed p @ [e], thread_finished := True\<rparr>"
    and "provider_coord (thread_main ds poll p) = provider_coord p"
    and "reached_end (thread_main ds poll p) = reached_end p"
  using assms thread_loop_fields[OF assms] by (simp_all add: thread_main_def)

text \<open>
  Claim C8, as amended: for an error raised inside the loop of the dataset reader, by the
  dataset, by the callback or when the sentinel is built, the loop ends with the stop
  requested at the coordinator. If the stop had not been requested before, the error is
  kept at the coordinator for the orchestrator (the first error reported is the one
  kept); if the stop had been requested before, the coordinator stays as it was and the
  error is dropped. An error raised inside the background thread of the
  \<^verbatim>\<open>FeedDictDataProvider\<close> is caught and printed, the thread is marked as finished and
  \<^verbatim>\<open>reached_end\<close> is left as it was; the stop signal is not touched.
\<close>

theorem background_loop_errors:
  fixes sts :: "nat \<Rightarrow> ('a::zero) reader_state"
  assumes "i \<le> n"
    and "\<forall>j. i \<le> j \<and> j < n \<longrightarrow> loop_body r ds feed poll j (sts j) = Next (sts (Suc j))"
    and "loop_body r ds feed poll n (sts n) = Raise e st'"
  shows "reader_loop r ds feed poll i (sts i) =
           Some (st'\<lparr>coord := request_stop (Some e) (coord (sts i))\<rparr>)
     \<and> stop_requested (request_stop (Some e) (coord (sts i)))
     \<and> (\<not> stop_requested (coord (sts i)) \<longrightarrow>
          exc_info_to_raise (request_stop (Some e) (coord (sts i))) \<noteq> None \<and>
          (exc_info_to_raise (coord (sts i)) = None \<longrightarrow>
             exc_info_to_raise (request_stop (Some e) (coord (sts i))) = Some e))
     \<and> (stop_requested (coord (sts i)) \<longrightarrow>
          request_stop (Some e) (coord (sts i)) = coord (sts i))
     \<and> (\<forall>(pds :: ('b::zero) Dataset) ppoll p pe p1.
          thread_loop pds ppoll 0 p = (Some pe, p1) \<longrightarrow>
            thread_main pds ppoll p = p1\<lparr>printed := printed p @ [pe], thread_finished := True\<rparr>
          \<and> provider_coord (thread_main pds ppoll p) = provider_coord p
          \<and> reached_end (thread_main pds ppoll p) = reached_end p)"
proof -
  have s: "reader_loop r ds feed poll i (sts i) = reader_loop r ds feed poll n (sts n)"
    and c: "coord (sts n) = coord (sts i)"
    using reader_loop_steps[OF assms(2,1)] by simp_all
  have a: "reader_loop r ds feed poll i (sts i) =
           Some (st'\<lparr>coord := request_stop (Some e) (coord (sts i))\<rparr>)"
    using s reader_loop_raise[OF assms(3)] c by simp
  have d: "stop_requested (request_stop (Some e) (coord (sts i)))"
    "\<not> stop_requested (coord (sts i)) \<longrightarrow>
          exc_info_to_raise (request_stop (Some e) (coord (sts i))) \<noteq> None \<and>
          (exc_info_to_raise (coord (sts i)) = None \<longrightarrow>
             exc_info_to_raise (request_stop (Some e) (coord (sts i))) = Some e)"
    "stop_requested (coord (sts i)) \<longrightarrow>
          request_stop (Some e) (coord (sts i)) = coord (sts i)"
    by (auto simp: request_stop_def split: option.splits)
  have t: "\<forall>(pds :: 'b Dataset) ppoll p pe p1.
          thread_loop pds ppoll 0 p = (Some pe, p1) \<longrightarrow>
            thread_main pds ppoll p = p1\<lparr>printed := printed p @ [pe], thread_finished := True\<rparr>
          \<and> provider_coord (thread_main pds ppoll p) = provider_coord p
          \<and> reached_end (thread_main pds ppoll p) = reached_end p"
    using thread_main_error by blast
  show ?thesis using a d t by blast
qed

lemma example_thread_loop:
  "thread_loop (failing_dataset 1 0) (\<lambda>i. False) 0 example_provider =
     (Some (Exception ''read error''), example_provider)"
  by (simp add: get_next_batch_def get_next_batch_fill_def example_provider_def
      failing_dataset_def example_dataset_def example_batch_def no_stop_def)

text \<open>
  The reader of the examples is the one that \<^verbatim>\<open>__init__\<close> builds for extern data without
  data keys. Over the dataset whose tag cannot be read at sequence 1 it delivers the
  record of sequence 0 and raises at sequence 1; over the dataset that cannot tell whether
  it has a sequence it raises at once.
\<close>

lemma example_reader_built:
  "DatasetReader_init [] True True True = Inr (example_reader True)"
  by (simp add: DatasetReader_init_def get_keys_def example_reader_def)

lemma example_loop_body_0:
  "loop_body (example_reader True) (failing_dataset 3 1) (\<lambda>d. None) (\<lambda>i. False) 0
     (reader_start c) =
   (if stop_requested c then Break (reader_start c)
    else Next ((reader_start c)
      \<lparr>fed := [[''seq_tag'' \<mapsto> Text ''seq'', ''seq_idx'' \<mapsto> Num 0, ''epoch_end'' \<mapsto> Flag False]]\<rparr>))"
  by (simp add: loop_body_def read_seq_def feed_callback_def example_reader_def
      failing_dataset_def example_dataset_def reader_start_def Let_def)

lemma example_loop_body_1:
  "\<not> stop_requested (coord st) \<Longrightarrow>
   loop_body (example_reader True) (failing_dataset 3 1) (\<lambda>d. None) (\<lambda>i. False) 1 st =
     Raise (Exception ''read error'') st"
  by (simp add: loop_body_def read_seq_def feed_callback_def example_reader_def
      failing_dataset_def example_dataset_def Let_def)

lemma unreadable_loop_body:
  "loop_body (example_reader True) unreadable_dataset (\<lambda>d. None) (\<lambda>i. False) 0 st =
     Raise (Exception ''read error'') st"
  by (simp add: loop_body_def unreadable_dataset_def example_dataset_def)

theorem background_loop_errors_witness:
  "DatasetReader_init [] True True True = Inr (example_reader True) \<and>
   get_tag (failing_dataset 3 1) 1 = Inl (Exception ''read error'') \<and>
   loop (example_reader True) (failing_dataset 3 1) (\<lambda>d. None) (\<lambda>i. False) no_stop =
     Some \<lparr>fed = [[''seq_tag'' \<mapsto> Text ''seq'', ''seq_idx'' \<mapsto> Num 0,
                   ''epoch_end'' \<mapsto> Flag False]],
           finished_iterating_seqs = False, final_num_seqs = None,
           coord = \<lparr>stop_requested = True,
                    exc_info_to_raise = Some (Exception ''read error'')\<rparr>\<rparr> \<and>
   is_less_than_num_seqs unreadable_dataset 0 = Inl (Exception ''read error'') \<and>
   loop (example_reader True) unreadable_dataset (\<lambda>d. None) (\<lambda>i. False) stopped =
     Some (reader_start stopped) \<and>
   thread_main (failing_dataset 1 0) (\<lambda>i. False) example_provider =
     example_provider\<lparr>printed := [Exception ''read error''], thread_finished := True\<rparr> \<and>
   provider_coord (thread_main (failing_dataset 1 0) (\<lambda>i. False) example_provider) = no_stop"
proof -
  let ?r = "example_reader True"
  let ?ds = "failing_dataset 3 1"
  let ?e = "Exception ''read error''"
  let ?start = "reader_start no_stop :: int reader_state"
  let ?one = "?start\<lparr>fed := [[''seq_tag'' \<mapsto> Text ''seq'', ''seq_idx'' \<mapsto> Num 0,
                               ''epoch_end'' \<mapsto> Flag False]]\<rparr>"
  let ?sts = "\<lambda>j::nat. if j = 0 then ?start else ?one"
  let ?halted = "reader_start stopped :: int reader_state"
  have b: "DatasetReader_init [] True True True = Inr ?r" by (rule example_reader_built)
  have g: "get_tag ?ds 1 = Inl ?e" by (simp add: failing_dataset_def)
  have l: "is_less_than_num_seqs unreadable_dataset 0 = Inl ?e"
    by (simp add: unreadable_dataset_def)
  have h1: "(0::nat) \<le> 1" by simp
  have h2: "\<forall>j. 0 \<le> j \<and> j < 1 \<longrightarrow>
      loop_body ?r ?ds (\<lambda>d. None) (\<lambda>i. False) j (?sts j) = Next (?sts (Suc j))"
    using example_loop_body_0[of no_stop] by (simp add: no_stop_def)
  have h3: "loop_body ?r ?ds (\<lambda>d. None) (\<lambda>i. False) 1 (?sts 1) = Raise ?e ?one"
    using example_loop_body_1[of "?one"] by (simp add: reader_start_def no_stop_def)
  have k1: "(0::nat) \<le> 0" by simp
  have k2: "\<forall>j. 0 \<le> j \<and> j < 0 \<longrightarrow>
      loop_body ?r unreadable_dataset (\<lambda>d. None) (\<lambda>i. False) j ((\<lambda>j. ?halted) j) =
        Next ((\<lambda>j. ?halted) (Suc j))"
    by simp
  have k3: "loop_body ?r unreadable_dataset (\<lambda>d. None) (\<lambda>i. False) 0 ((\<lambda>j. ?halted) 0) =
      Raise ?e ?halted"
    by (simp add: unreadable_loop_body)
  have t1: "thread_loop (failing_dataset 1 0) (\<lambda>i. False) 0 example_provider =
     (Some ?e, example_provider)"
    by (rule example_thread_loop)
  note th = background_loop_errors[OF h1 h2 h3, where 'b = int]
  note tk = background_loop_errors[OF k1 k2 k3, where 'b = int]
  from th have a: "reader_loop ?r ?ds (\<lambda>d. None) (\<lambda>i. False) 0 ?start =
      Some (?one\<lparr>coord := request_stop (Some ?e) (coord ?start)\<rparr>)"
    by simp
  from tk have c: "reader_loop ?r unreadable_dataset (\<lambda>d. None) (\<lambda>i. False) 0 ?halted =
      Some (?halted\<lparr>coord := request_stop (Some ?e) (coord ?halted)\<rparr>)"
    by simp
  from th t1 have d: "thread_main (failing_dataset 1 0) (\<lambda>i. False) example_provider =
      example_provider\<lparr>printed := printed example_provider @ [?e], thread_finished := True\<rparr>"
     "provider_coord (thread_main (failing_dataset 1 0) (\<lambda>i. False) example_provider) =
        provider_coord example_provider"
    by blast+
  have p: "printed example_provider = []" "provider_coord example_provider = no_stop"
    by (simp_all add: example_provider_def)
  have a': "loop ?r ?ds (\<lambda>d. None) (\<lambda>i. False) no_stop =
     Some \<lparr>fed = [[''seq_tag'' \<mapsto> Text ''seq'', ''seq_idx'' \<mapsto> Num 0,
                   ''epoch_end'' \<mapsto> Flag False]],
           finished_iterating_seqs = False, final_num_seqs = None,
           coord = \<lparr>stop_requested = True, exc_info_to_raise = Some ?e\<rparr>\<rparr>"
    using a by (simp add: loop_def reader_start_def no_stop_def request_stop_def)
  have c': "loop ?r unreadable_dataset (\<lambda>d. None) (\<lambda>i. False) stopped = Some ?halted"
    using c by (simp add: loop_def reader_start_def stopped_def request_stop_def)
  show ?thesis using b g l a' c' d p by simp
qed

text \<open>
  Claim C8 as stated fails in two ways. In the background thread of the
  \<^verbatim>\<open>FeedDictDataProvider\<close> the dataset raises when the first batch is loaded: the thread
  prints the error and ends, and the stop is not requested at the coordinator, which holds
  no error. And the loop of a dataset reader whose coordinator has been asked to stop
  before the dataset raises ends with the coordinator as it was: it holds no error.
\<close>

theorem background_loop_errors_counterexample:
  "thread_main (failing_dataset 1 0) (\<lambda>i. False) example_provider =
     example_provider\<lparr>printed := [Exception ''read error''], thread_finished := True\<rparr> \<and>
   \<not> stop_requested (provider_coord
        (example_provider\<lparr>printed := [Exception ''read error''], thread_finished := True\<rparr>)) \<and>
   exc_info_to_raise (provider_coord
        (example_provider\<lparr>printed := [Exception ''read error''], thread_finished := True\<rparr>)) = None \<and>
   is_less_than_num_seqs unreadable_dataset 0 = Inl (Exception ''read error'') \<and>
   map_option (\<lambda>st. (fed st, exc_info_to_raise (coord st)))
     (loop (example_reader True) unreadable_dataset (\<lambda>d. None) (\<lambda>i. False) stopped) =
     Some ([], None)"
proof -
  let ?halted = "reader_start stopped :: int reader_state"
  have r: "loop (example_reader True) unreadable_dataset (\<lambda>d. None) (\<lambda>i. False) stopped =
      Some (?halted\<lparr>coord := request_stop (Some (Exception ''read error'')) (coord ?halted)\<rparr>)"
    using reader_loop_raise[OF unreadable_loop_body] by (simp add: loop_def)
  have l: "is_less_than_num_seqs unreadable_dataset 0 = Inl (Exception ''read error'')"
    by (simp add: unreadable_dataset_def)
  show ?thesis using example_thread_loop r l
    by (simp add: thread_main_def example_provider_def no_stop_def reader_start_def
        stopped_def request_stop_def)
qed

section \<open>Properties of the data providers\<close>

lemma fold_max_Max: "fold max xs (m::int) = Max (insert m (set xs))"
  using Max.set_eq_fold[of m xs] by simp

lemma Max_insert_below:
  fixes a m :: int
  assumes "finite S" "m \<le> a"
  shows "max a (Max (insert m S)) = Max (insert a S)"
proof (cases "S = {}")
  case True
  then show ?thesis using assms by simp
next
  case False
  then show ?thesis using assms by (simp add: max.assoc[symmetric] max.absorb1)
qed

lemma seq_idx_entries:
  "set (concat (map (\<lambda>v. case v ''seq_idx'' of Some (Num i) \<Rightarrow> [i] | _ \<Rightarrow> []) vs)) =
   {i. \<exists>v\<in>set vs. v ''seq_idx'' = Some (Num i)}"
  by (auto split: option.splits tensor.splits)

text \<open>
  When a batch is taken out, \<^verbatim>\<open>last_seq_idx_var\<close> becomes the largest of its old value and
  the sequence indices of the batch.
\<close>

lemma dequeue_op_last_seq_idx:
  assumes "dequeue_op q = Some (b, q')" and "- 2147483648 \<le> last_seq_idx_var q"
  shows "last_seq_idx_var q' =
         Max (insert (last_seq_idx_var q) {i. \<exists>v\<in>set b. v ''seq_idx'' = Some (Num i)})"
proof -
  let ?S = "{i. \<exists>v\<in>set b. v ''seq_idx'' = Some (Num i)}"
  have f: "finite ?S" using seq_idx_entries[of b, symmetric] by (metis List.finite_set)
  have r: "reduce_max_seq_idx b = Max (insert (- 2147483648) ?S)"
    unfolding reduce_max_seq_idx_def fold_max_Max seq_idx_entries ..
  from assms(1) have "last_seq_idx_var q' = max (last_seq_idx_var q) (reduce_max_seq_idx b)"
    by (auto simp: dequeue_op_def Let_def split: list.splits if_splits)
  then show ?thesis unfolding r using Max_insert_below[OF f assms(2)] by simp
qed

text \<open>
  Claim C9: \<^verbatim>\<open>have_more_data\<close> (of a provider with a current reader) returns true as long
  as the final sequence count of the reader is not known; once the count \<open>n\<close> is known it
  returns true if and only if \<open>last_seq_idx + 1 < n\<close>, where \<open>last_seq_idx\<close> is the variable
  of the batching queue, the largest sequence index of the batches taken out so far (and
  of its start value 0).
\<close>

theorem have_more_data_iff:
  fixes p :: "('a::zero) QueueDataProvider"
  assumes "cur_dataset_reader p = Some rd"
  shows "have_more_data p =
           Inr (case final_num_seqs rd of
                  None \<Rightarrow> (True, p)
                | Some n \<Rightarrow> (last_seq_idx_var (batch_queue p) + 1 < int n,
                            update_last_seq_idx p))
     \<and> last_seq_idx_var (TFBatchingQueue_init bs ms dk ta :: 'a TFBatchingQueue) = 0
     \<and> (\<forall>(q :: ('a::zero) TFBatchingQueue) b q'.
           dequeue_op q = Some (b, q') \<and> - 2147483648 \<le> last_seq_idx_var q \<longrightarrow>
           last_seq_idx_var q' =
             Max (insert (last_seq_idx_var q) {i. \<exists>v\<in>set b. v ''seq_idx'' = Some (Num i)}))"
proof (intro conjI allI impI)
  show "have_more_data p =
           Inr (case final_num_seqs rd of
                  None \<Rightarrow> (True, p)
                | Some n \<Rightarrow> (last_seq_idx_var (batch_queue p) + 1 < int n,
                            update_last_seq_idx p))"
    using assms
    by (auto simp: have_more_data_def update_last_seq_idx_def Let_def split: option.splits)
  show "last_seq_idx_var (TFBatchingQueue_init bs ms dk ta :: 'a TFBatchingQueue) = 0"
    by (simp add: TFBatchingQueue_init_def)
next
  fix q :: "'a TFBatchingQueue" and b q'
  assume "dequeue_op q = Some (b, q') \<and> - 2147483648 \<le> last_seq_idx_var q"
  then show "last_seq_idx_var q' =
             Max (insert (last_seq_idx_var q) {i. \<exists>v\<in>set b. v ''seq_idx'' = Some (Num i)})"
    using dequeue_op_last_seq_idx by blast
qed

theorem have_more_data_iff_witness:
  "have_more_data
     \<lparr>batch_queue = (example_queue 12 3)\<lparr>last_seq_idx_var := 1\<rparr>,
      cur_dataset_reader = Some ((reader_start no_stop)\<lparr>final_num_seqs := Some 3\<rparr>),
      last_seq_idx = None\<rparr> =
     Inr (True,
       \<lparr>batch_queue = (example_queue 12 3)\<lparr>last_seq_idx_var := 1\<rparr>,
        cur_dataset_reader = Some ((reader_start no_stop)\<lparr>final_num_seqs := Some 3\<rparr>),
        last_seq_idx = Some 1\<rparr>) \<and>
   dequeue_op ((example_queue 12 3)\<lparr>tf_batch_nums := [2],
                 tf_out_queue := [example_member 0 4, example_member 1 4]\<rparr>) =
     Some (dequeue_up_to 2 [example_member 0 4, example_member 1 4],
           (example_queue 12 3)\<lparr>last_seq_idx_var := 1, seq_counter := 2, batch_counter := 1\<rparr>) \<and>
   Max (insert 0 {i. \<exists>v\<in>set (dequeue_up_to 2 [example_member 0 4, example_member 1 4]).
                       v ''seq_idx'' = Some (Num i)}) = 1"
proof -
  let ?rd = "(reader_start no_stop :: int reader_state)\<lparr>final_num_seqs := Some 3\<rparr>"
  let ?p = "\<lparr>batch_queue = (example_queue 12 3)\<lparr>last_seq_idx_var := 1\<rparr>,
      cur_dataset_reader = Some ?rd, last_seq_idx = None\<rparr>"
  let ?q = "(example_queue 12 3)\<lparr>tf_batch_nums := [2],
                 tf_out_queue := [example_member 0 4, example_member 1 4]\<rparr>"
  let ?b = "dequeue_up_to 2 [example_member 0 4, example_member 1 4]"
  let ?r = "(example_queue 12 3)\<lparr>last_seq_idx_var := 1, seq_counter := 2, batch_counter := 1\<rparr>"
  have h: "cur_dataset_reader ?p = Some ?rd" by simp
  have d: "dequeue_op ?q = Some (?b, ?r)"
    by (simp add: dequeue_op_def Let_def example_queue_def TFBatchingQueue_init_def
        reduce_max_seq_idx_def dequeue_up_to_def pad_item_def pad_tensor_def example_member_def)
  have l: "- 2147483648 \<le> last_seq_idx_var ?q"
    by (simp add: example_queue_def TFBatchingQueue_init_def)
  note th = have_more_data_iff[OF h, where bs = 0 and ms = 0 and dk = "[]" and ta = None]
  from th have a: "have_more_data ?p = Inr (True, update_last_seq_idx ?p)"
    by (simp add: example_queue_def TFBatchingQueue_init_def)
  from th d l have "last_seq_idx_var ?r =
      Max (insert (last_seq_idx_var ?q) {i. \<exists>v\<in>set ?b. v ''seq_idx'' = Some (Num i)})"
    by blast
  then have m: "Max (insert 0 {i. \<exists>v\<in>set ?b. v ''seq_idx'' = Some (Num i)}) = 1"
    by (simp add: example_queue_def TFBatchingQueue_init_def)
  show ?thesis using a d m by (simp add: update_last_seq_idx_def)
qed

text \<open>
  A call of \<^verbatim>\<open>get_data_slice\<close> is only made for a member and a key of frame length other
  than 0.
\<close>

lemma fill_key_calls:
  assumes "\<forall>(s, k')\<in>set (calls st). frame_length s k' \<noteq> 0"
  shows "\<forall>(s, k')\<in>set (calls (fill_key ds seq k st)). frame_length s k' \<noteq> 0"
  using assms
  by (auto simp: fill_key_def Let_def split: sum.splits option.splits if_splits)

lemma fill_seq_calls:
  assumes "\<forall>(s, k')\<in>set (calls st). frame_length s k' \<noteq> 0"
  shows "\<forall>(s, k')\<in>set (calls (fill_seq ds ks seq st)). frame_length s k' \<noteq> 0"
  using assms unfolding fill_seq_def
proof (induction ks arbitrary: st)
  case Nil
  then show ?case by simp
next
  case (Cons k ks)
  from Cons.IH[OF fill_key_calls[OF Cons.prems]] show ?case by simp
qed

lemma fill_batch_calls:
  assumes "\<forall>(s, k')\<in>set (calls st). frame_length s k' \<noteq> 0"
  shows "\<forall>(s, k')\<in>set (calls (fold (fill_seq ds ks) ss st)). frame_length s k' \<noteq> 0"
  using assms
proof (induction ss arbitrary: st)
  case Nil
  then show ?case by simp
next
  case (Cons s ss)
  from Cons.IH[OF fill_seq_calls[OF Cons.prems]] show ?case by simp
qed

lemma get_next_batch_fill_calls:
  "\<forall>(s, k')\<in>set (calls (fst (get_next_batch_fill ds p))). frame_length s k' \<noteq> 0"
proof (cases "batches p")
  case Nil
  then show ?thesis by (simp add: get_next_batch_fill_def)
next
  case (Cons batch rest)
  have z: "\<forall>(s, k')\<in>set (calls (zeros_fill ds (data_keys p) batch)). frame_length s k' \<noteq> 0"
    by (simp add: zeros_fill_def)
  show ?thesis
    using Cons fill_batch_calls[OF z, of ds "data_keys p" "seqs batch"]
    by (simp add: get_next_batch_fill_def fill_batch_def zeros_fill_def split: option.splits)
qed

text \<open>
  The row and the sequence length of a slot stay at zero as long as no member with frames
  for the key is put into the slot.
\<close>

lemma fill_key_slot_zero:
  assumes "slot_zero k q t st"
    and "k' = k \<and> batch_slice seq = q \<longrightarrow> frame_length seq k = 0"
  shows "slot_zero k q t (fill_key ds seq k' st)"
proof (cases "k' = k")
  case False
  then show ?thesis
    using assms(1)
    by (auto simp: fill_key_def slot_zero_def Let_def split: sum.splits option.splits if_splits)
next
  case True
  show ?thesis
  proof (cases "batch_slice seq = q")
    case True
    then show ?thesis using assms \<open>k' = k\<close> by (simp add: fill_key_def)
  next
    case False
    then show ?thesis
      using assms(1) \<open>k' = k\<close>
      by (auto simp: fill_key_def slot_zero_def Let_def
          split: sum.splits option.splits if_splits)
  qed
qed

lemma fill_seq_slot_zero:
  assumes "slot_zero k q t st" and "batch_slice seq = q \<longrightarrow> frame_length seq k = 0"
  shows "slot_zero k q t (fill_seq ds ks seq st)"
  using assms(1) unfolding fill_seq_def
proof (induction ks arbitrary: st)
  case Nil
  then show ?case by simp
next
  case (Cons k' ks)
  have "slot_zero k q t (fill_key ds seq k' st)"
    using fill_key_slot_zero[OF Cons.prems] assms(2) by blast
  from Cons.IH[OF this] show ?case by simp
qed

lemma fill_batch_slot_zero:
  assumes "slot_zero k q t st"
    and "\<forall>s\<in>set ss. batch_slice s = q \<longrightarrow> frame_length s k = 0"
  shows "slot_zero k q t (fold (fill_seq ds ks) ss st)"
  using assms
proof (induction ss arbitrary: st)
  case Nil
  then show ?case by simp
next
  case (Cons s ss)
  have "slot_zero k q t (fill_seq ds ks s st)"
    using fill_seq_slot_zero[OF Cons.prems(1)] Cons.prems(2) by simp
  from Cons.IH[OF this] Cons.prems(2) show ?case by simp
qed

lemma zeros_fill_slot_zero:
  assumes "k \<in> set ks" and "q < fst (shapes_for_batches ds batch k)"
  shows "slot_zero k q (snd (shapes_for_batches ds batch k)) (zeros_fill ds ks batch)"
  using assms by (simp add: slot_zero_def zeros_fill_def)

text \<open>
  Claim C10, as amended: for a batch member and a data key whose frame length for that
  member is zero, \<^verbatim>\<open>get_data_slice\<close> is never called for that key and member, and the step
  for them leaves the batch arrays and the sequence lengths exactly as they were; the row
  of a slot in the batch array of the key and the sequence length of the slot are still
  at their zero initialization at the end if every member that is put into this slot has
  frame length zero for the key.
\<close>

theorem zero_length_key_skipped:
  fixes ds :: "('a::zero) Dataset"
  assumes "frame_length seq k = 0"
  shows "fill_key ds seq k st = st
     \<and> (\<forall>p. (seq, k) \<notin> set (calls (fst (get_next_batch_fill ds p))))
     \<and> (\<forall>p batch rest q.
           batches p = batch # rest \<and> load_seqs ds (start_seq batch) (end_seq batch) = None
           \<and> k \<in> set (data_keys p) \<and> q < fst (shapes_for_batches ds batch k)
           \<and> (\<forall>s\<in>set (seqs batch). batch_slice s = q \<longrightarrow> frame_length s k = 0)
         \<longrightarrow> slot_zero k q (snd (shapes_for_batches ds batch k))
               (fst (get_next_batch_fill ds p)))"
proof (intro conjI allI impI)
  show "fill_key ds seq k st = st" using assms by (simp add: fill_key_def)
next
  fix p :: "'a FeedDictDataProvider"
  show "(seq, k) \<notin> set (calls (fst (get_next_batch_fill ds p)))"
    using get_next_batch_fill_calls[of ds p] assms by auto
next
  fix p :: "'a FeedDictDataProvider" and batch rest q
  assume h: "batches p = batch # rest \<and> load_seqs ds (start_seq batch) (end_seq batch) = None
           \<and> k \<in> set (data_keys p) \<and> q < fst (shapes_for_batches ds batch k)
           \<and> (\<forall>s\<in>set (seqs batch). batch_slice s = q \<longrightarrow> frame_length s k = 0)"
  then have z: "slot_zero k q (snd (shapes_for_batches ds batch k))
                  (zeros_fill ds (data_keys p) batch)"
    by (simp add: zeros_fill_slot_zero)
  have "slot_zero k q (snd (shapes_for_batches ds batch k))
          (fold (fill_seq ds (data_keys p)) (seqs batch) (zeros_fill ds (data_keys p) batch))"
    using fill_batch_slot_zero[OF z] h by blast
  then show "slot_zero k q (snd (shapes_for_batches ds batch k))
               (fst (get_next_batch_fill ds p))"
    using h by (simp add: get_next_batch_fill_def fill_batch_def)
qed

lemmas example_fill_defs =
  get_next_batch_fill_def fill_batch_def fill_seq_def fill_key_def zeros_fill_def Let_def
  example_provider_def example_provider_slots_def example_batch_def example_batch_slots_def
  example_part_def example_dataset_def no_stop_def

lemma example_fill_slots:
  "seq_lens (fst (get_next_batch_fill (example_dataset 2) example_provider_slots)) ''classes''
     = Some [0, 3] \<and>
   data (fst (get_next_batch_fill (example_dataset 2) example_provider_slots)) ''classes''
     = Some [[0, 0, 0], [1, 1, 1]]"
  by (simp add: example_fill_defs eval_nat_numeral)

theorem zero_length_key_skipped_witness:
  "frame_length (example_part 0 0 (\<lambda>k. 0) (\<lambda>k. if k = ''classes'' then 0 else 2)) ''classes'' = 0 \<and>
   (example_part 0 0 (\<lambda>k. 0) (\<lambda>k. if k = ''classes'' then 0 else 2), ''classes'')
     \<notin> set (calls (fst (get_next_batch_fill (example_dataset 2) example_provider_slots))) \<and>
   slot_zero ''classes'' 0 3 (fst (get_next_batch_fill (example_dataset 2) example_provider_slots)) \<and>
   seq_lens (fst (get_next_batch_fill (example_dataset 2) example_provider_slots)) ''classes''
     = Some [0, 3] \<and>
   data (fst (get_next_batch_fill (example_dataset 2) example_provider_slots)) ''classes''
     = Some [[0, 0, 0], [1, 1, 1]]"
proof -
  let ?a = "example_part 0 0 (\<lambda>k. 0) (\<lambda>k. if k = ''classes'' then 0 else 2)"
  let ?ds = "example_dataset 2"
  let ?p = "example_provider_slots"
  have h: "frame_length ?a ''classes'' = 0" by (simp add: example_part_def)
  have b: "batches ?p = example_batch_slots # []
           \<and> load_seqs ?ds (start_seq example_batch_slots) (end_seq example_batch_slots) = None
           \<and> ''classes'' \<in> set (data_keys ?p)
           \<and> 0 < fst (shapes_for_batches ?ds example_batch_slots ''classes'')
           \<and> (\<forall>s\<in>set (seqs example_batch_slots).
                 batch_slice s = 0 \<longrightarrow> frame_length s ''classes'' = 0)"
    by (simp add: example_provider_slots_def example_provider_def example_dataset_def
        example_batch_slots_def example_part_def)
  have t: "snd (shapes_for_batches ?ds example_batch_slots ''classes'') = 3"
    by (simp add: example_dataset_def example_batch_slots_def example_part_def)
  note th = zero_length_key_skipped[OF h, of ?ds]
  from th have c: "(?a, ''classes'') \<notin> set (calls (fst (get_next_batch_fill ?ds ?p)))"
    by blast
  from th b have "slot_zero ''classes'' 0 (snd (shapes_for_batches ?ds example_batch_slots ''classes''))
                    (fst (get_next_batch_fill ?ds ?p))"
    by blast
  then have s: "slot_zero ''classes'' 0 3 (fst (get_next_batch_fill ?ds ?p))"
    unfolding t .
  show ?thesis using h c s example_fill_slots by blast
qed

text \<open>
  Claim C10 as stated fails where members share a slot: the first member of the example
  batch has no frames of \<^verbatim>\<open>"classes"\<close> and sits in slot 0, and at the end the sequence
  length of slot 0 for \<^verbatim>\<open>"classes"\<close> is 3 and its row holds the frames of the second member.
\<close>

theorem zero_length_key_skipped_counterexample:
  "frame_length (seqs example_batch ! 0) ''classes'' = 0 \<and>
   batch_slice (seqs example_batch ! 0) = 0 \<and>
   raised (fst (get_next_batch_fill (example_dataset 2) example_provider)) = None \<and>
   seq_lens (fst (get_next_batch_fill (example_dataset 2) example_provider)) ''classes''
     = Some [3] \<and>
   data (fst (get_next_batch_fill (example_dataset 2) example_provider)) ''classes''
     = Some [[1, 1, 1]]"
  by (simp add: example_fill_defs eval_nat_numeral)

end
